theory Spec2Isabelle
  imports Main "HOL-Library.Multiset" "HOL-Library.Code_Target_Nat"
begin

section \<open>Python values used by the downloader\<close>

text \<open>
  A Python \<open>str\<close> is a sequence of Unicode code points, a \<open>bytes\<close> object a sequence
  of octets. Both are lists of naturals here; \<open>ustr\<close> turns an ASCII literal of the
  source into its code points.
\<close>

type_synonym pystr = "nat list"
type_synonym pybytes = "nat list"

definition ustr :: "string \<Rightarrow> pystr" where
  "ustr s = map of_char s"

text \<open>
  The exceptions that can leave the modelled functions. The ones the source raises itself
  carry the message of the source; the others are raised by the interpreter or by a
  library call.
\<close>

datatype decode_reason =
  TrailingBackslash | TruncatedEscape | IllegalCharacter | MalformedName | UnknownName

datatype error =
    RuntimeError string
  | ValueError string
  | BadParameter string
  | AssertionError
  | TypeError
  | IndexError
  | AttributeError
  | OverflowError
  | ParserError
  | HTTPError
  | JSONDecodeError
  | UnicodeEncodeError
  | UnicodeDecodeError decode_reason
  | OSError

text \<open>
  \<open>str.isspace\<close> per code point (the interpreter's whitespace table), and
  \<open>str.strip()\<close>, which removes such code points at both ends.
\<close>

definition py_isspace :: "nat \<Rightarrow> bool" where
  "py_isspace c \<longleftrightarrow>
     (9 \<le> c \<and> c \<le> 13) \<or> (28 \<le> c \<and> c \<le> 32) \<or> c = 133 \<or> c = 160 \<or> c = 5760 \<or>
     (8192 \<le> c \<and> c \<le> 8202) \<or> c = 8232 \<or> c = 8233 \<or> c = 8239 \<or> c = 8287 \<or>
     c = 12288"

definition py_strip :: "pystr \<Rightarrow> pystr" where
  "py_strip s = rev (dropWhile py_isspace (rev (dropWhile py_isspace s)))"

text \<open>
  A comprehension whose element expression can raise: the first exception, left to right,
  ends it.
\<close>

fun sequence_sum :: "('e + 'a) list \<Rightarrow> 'e + 'a list" where
  "sequence_sum [] = Inr []"
| "sequence_sum (Inl e # _) = Inl e"
| "sequence_sum (Inr x # rs) =
     (case sequence_sum rs of Inl e \<Rightarrow> Inl e | Inr xs \<Rightarrow> Inr (x # xs))"

section \<open>Calendar dates\<close>

text \<open>
  A \<open>datetime.date\<close> is represented by its proleptic Gregorian ordinal, the number
  \<open>date.toordinal()\<close> returns: comparison, \<open>date - date\<close> and \<open>date + timedelta\<close>
  are defined on it. Dates run from 0001-01-01 (ordinal 1) to 9999-12-31.
\<close>

type_synonym date = int

definition max_ordinal :: int where
  "max_ordinal = 3652059"

definition valid_date :: "date \<Rightarrow> bool" where
  "valid_date d \<longleftrightarrow> 1 \<le> d \<and> d \<le> max_ordinal"

definition days_between :: "date \<Rightarrow> date \<Rightarrow> int" where
  \<comment> \<open>\<open>(e - s).days\<close>\<close>
  "days_between e s = e - s"

definition date_add_days :: "date \<Rightarrow> int \<Rightarrow> error + date" where
  \<comment> \<open>\<open>d + timedelta(days=k)\<close>; out of range is an OverflowError\<close>
  "date_add_days d k = (if valid_date (d + k) then Inr (d + k) else Inl OverflowError)"

text \<open>The calendar arithmetic of the \<open>datetime\<close> module, for building and printing dates.\<close>

definition is_leap :: "int \<Rightarrow> bool" where
  "is_leap y \<longleftrightarrow> y mod 4 = 0 \<and> (y mod 100 \<noteq> 0 \<or> y mod 400 = 0)"

definition days_in_month_tab :: "bool \<Rightarrow> int \<Rightarrow> int" where
  "days_in_month_tab leap m =
     (if m = 2 then (if leap then 29 else 28)
      else if m = 4 \<or> m = 6 \<or> m = 9 \<or> m = 11 then 30 else 31)"

definition days_before_month_tab :: "bool \<Rightarrow> int \<Rightarrow> int" where
  "days_before_month_tab leap m =
     [0, 0, 31, 59, 90, 120, 151, 181, 212, 243, 273, 304, 334] ! nat m
       + (if m > 2 \<and> leap then 1 else 0)"

definition days_before_year :: "int \<Rightarrow> int" where
  "days_before_year y =
     (y - 1) * 365 + (y - 1) div 4 - (y - 1) div 100 + (y - 1) div 400"

definition ymd2ord :: "int \<Rightarrow> int \<Rightarrow> int \<Rightarrow> date" where
  "ymd2ord y m d = days_before_year y + days_before_month_tab (is_leap y) m + d"

definition valid_ymd :: "int \<Rightarrow> int \<Rightarrow> int \<Rightarrow> bool" where
  "valid_ymd y m d \<longleftrightarrow>
     1 \<le> y \<and> y \<le> 9999 \<and> 1 \<le> m \<and> m \<le> 12 \<and> 1 \<le> d \<and> d \<le> days_in_month_tab (is_leap y) m"

definition ord2ymd :: "date \<Rightarrow> int \<times> int \<times> int" where
  "ord2ymd ordinal =
     (let n = ordinal - 1;
          n400 = n div 146097; n = n mod 146097;
          n100 = n div 36524; n = n mod 36524;
          n4 = n div 1461; n = n mod 1461;
          n1 = n div 365; n = n mod 365;
          year = n400 * 400 + 1 + n100 * 100 + n4 * 4 + n1
      in if n1 = 4 \<or> n100 = 4 then (year - 1, 12, 31)
         else
           let leapyear = (n1 = 3 \<and> (n4 \<noteq> 24 \<or> n100 = 3));
               month = (n + 50) div 32;
               preceding = days_before_month_tab leapyear month
           in if preceding > n
              then (year, month - 1,
                    n - (preceding - days_in_month_tab leapyear (month - 1)) + 1)
              else (year, month, n - preceding + 1))"

section \<open>Resolving the date option\<close>

text \<open>
  \<open>dateutil.parser.parse\<close>, the conversion to the Sydney time zone and the clock are
  not part of the repository: they are parameters. A parsed \<open>datetime\<close> keeps its
  calendar date, its time of day in seconds and, when it is timezone-aware, its UTC
  offset in seconds.
\<close>

record datetime =
  dt_date :: date
  dt_seconds :: int
  tzinfo :: "int option"

record date_libs =
  parser_parse :: "pystr \<Rightarrow> bool \<Rightarrow> error + datetime"
  astimezone_sydney :: "datetime \<Rightarrow> error + datetime"
  today_sydney :: date

definition parse_single_date :: "date_libs \<Rightarrow> pystr \<Rightarrow> bool \<Rightarrow> error + date" where
  "parse_single_date L raw day_first =
     (case parser_parse L raw day_first of
        Inl e \<Rightarrow> Inl e
      | Inr parsed \<Rightarrow>
          (case tzinfo parsed of
             None \<Rightarrow> Inr (dt_date parsed)
           | Some _ \<Rightarrow>
               (case astimezone_sydney L parsed of
                  Inl e \<Rightarrow> Inl e
                | Inr local \<Rightarrow> Inr (dt_date local))))"

definition colon :: nat where
  "colon = 58"

definition split_first_colon :: "pystr \<Rightarrow> pystr \<times> pystr" where
  \<comment> \<open>\<open>token.split(":", 1)\<close> on a token that contains a colon\<close>
  "split_first_colon tok =
     (takeWhile (\<lambda>c. c \<noteq> colon) tok, tl (dropWhile (\<lambda>c. c \<noteq> colon) tok))"

definition date_span :: "date \<Rightarrow> date \<Rightarrow> error + date list" where
  \<comment> \<open>\<open>span = (end - start).days + 1; [start + timedelta(days=o) for o in range(span)]\<close>\<close>
  "date_span start_date end_date =
     (let span = days_between end_date start_date + 1
      in sequence_sum (map (\<lambda>offset. date_add_days start_date (int offset)) [0..<nat span]))"

definition day_first_attempt :: "date_libs \<Rightarrow> pystr \<Rightarrow> pystr \<Rightarrow> error + date \<times> date" where
  \<comment> \<open>the body of the \<open>try\<close>: two parses and the assertion\<close>
  "day_first_attempt L start_raw end_raw =
     (case parse_single_date L start_raw True of
        Inl e \<Rightarrow> Inl e
      | Inr start_date \<Rightarrow>
          (case parse_single_date L end_raw True of
             Inl e \<Rightarrow> Inl e
           | Inr end_date \<Rightarrow>
               if end_date \<ge> start_date then Inr (start_date, end_date)
               else Inl AssertionError))"

definition month_first_attempt :: "date_libs \<Rightarrow> pystr \<Rightarrow> pystr \<Rightarrow> error + date \<times> date" where
  \<comment> \<open>the \<open>except AssertionError\<close> handler\<close>
  "month_first_attempt L start_raw end_raw =
     (case parse_single_date L start_raw False of
        Inl e \<Rightarrow> Inl e
      | Inr start_date \<Rightarrow>
          (case parse_single_date L end_raw False of
             Inl e \<Rightarrow> Inl e
           | Inr end_date \<Rightarrow>
               if end_date < start_date
               then Inl (BadParameter ''End date must be on or after start date.'')
               else Inr (start_date, end_date)))"

definition resolve_dates :: "date_libs \<Rightarrow> pystr option \<Rightarrow> error + date list" where
  "resolve_dates L date_token =
     (case date_token of
        None \<Rightarrow> Inr [today_sydney L]
      | Some tok \<Rightarrow>
          if tok = [] then Inr [today_sydney L]
          else if colon \<in> set tok then
            (let start_raw = py_strip (fst (split_first_colon tok));
                 end_raw = py_strip (snd (split_first_colon tok))
             in if start_raw = [] \<or> end_raw = []
                then Inl (BadParameter ''Date range must include both start and end values.'')
                else
                  (case day_first_attempt L start_raw end_raw of
                     Inr (start_date, end_date) \<Rightarrow> date_span start_date end_date
                   | Inl AssertionError \<Rightarrow>
                       (case month_first_attempt L start_raw end_raw of
                          Inl e \<Rightarrow> Inl e
                        | Inr (start_date, end_date) \<Rightarrow> date_span start_date end_date)
                   | Inl e \<Rightarrow> Inl e))
          else
            (case parse_single_date L tok True of
               Inl e \<Rightarrow> Inl e
             | Inr d \<Rightarrow> Inr [d]))"



text \<open>
  An instance of the parser for concrete runs: \<open>dateutil\<close>'s reading of three fields of
  digits separated by slashes or by hyphens. A field of more than two digits is the year.
  The order asked for is a preference: the first field is the day when it cannot be a
  month, and the month when the second cannot be one; a year of two digits is put in the
  century around \<open>this_year\<close>; a combination that is not a calendar date is refused.
  Tokens of another shape are refused here.
\<close>

fun split_on :: "nat \<Rightarrow> pystr \<Rightarrow> pystr list" where
  "split_on sep [] = [[]]"
| "split_on sep (c # cs) =
     (if c = sep then [] # split_on sep cs
      else (case split_on sep cs of p # ps \<Rightarrow> (c # p) # ps | [] \<Rightarrow> [[c]]))"

definition decimal_value :: "pystr \<Rightarrow> int option" where
  "decimal_value s =
     (if s \<noteq> [] \<and> list_all (\<lambda>c. 48 \<le> c \<and> c \<le> 57) s
      then Some (foldl (\<lambda>acc c. 10 * acc + int (c - 48)) 0 s) else None)"

definition numeric_fields :: "pystr \<Rightarrow> ((int \<times> int \<times> int) \<times> bool \<times> bool) option" where
  \<comment> \<open>the three numbers, whether the first is marked as the year, whether a century is given\<close>
  "numeric_fields raw =
     (case filter (\<lambda>c. c = 47 \<or> c = 45) raw of
        [] \<Rightarrow> None
      | sep # _ \<Rightarrow>
          (case split_on sep raw of
             [fa, fb, fc] \<Rightarrow>
               (case (decimal_value fa, decimal_value fb, decimal_value fc) of
                  (Some a, Some b, Some c) \<Rightarrow>
                    if length (filter (\<lambda>f. length f > 2) [fa, fb, fc]) \<le> 1
                       \<and> list_all (\<lambda>f. length f \<le> 4) [fa, fb, fc]
                    then Some ((a, b, c), length fa > 2, list_ex (\<lambda>f. length f > 2) [fa, fb, fc])
                    else None
                | _ \<Rightarrow> None)
           | _ \<Rightarrow> None))"

definition resolve_ymd :: "bool \<Rightarrow> bool \<Rightarrow> int \<times> int \<times> int \<Rightarrow> int \<times> int \<times> int" where
  \<comment> \<open>year, month and day of three numbers, by the parser's rule for numeric members\<close>
  "resolve_ymd day_first year_in_front abc =
     (case abc of
        (a, b, c) \<Rightarrow>
          if a > 31 \<or> year_in_front then
            (if day_first \<and> c \<le> 12 then (a, c, b) else (a, b, c))
          else if a > 12 \<or> (day_first \<and> b \<le> 12) then (c, b, a)
          else (c, a, b))"

definition convertyear :: "int \<Rightarrow> int \<Rightarrow> bool \<Rightarrow> int" where
  "convertyear this_year year century_specified =
     (if year < 100 \<and> \<not> century_specified then
        (let y = year + this_year div 100 * 100
         in if y \<ge> this_year + 50 then y - 100
            else if y < this_year - 50 then y + 100
            else y)
      else year)"

definition numeric_parse :: "int \<Rightarrow> pystr \<Rightarrow> bool \<Rightarrow> error + datetime" where
  "numeric_parse this_year raw day_first =
     (case numeric_fields raw of
        None \<Rightarrow> Inl ParserError
      | Some (abc, year_in_front, century_specified) \<Rightarrow>
          (case resolve_ymd day_first year_in_front abc of
             (year, m, d) \<Rightarrow>
               (let y = convertyear this_year year century_specified
                in if valid_ymd y m d
                   then Inr \<lparr>dt_date = ymd2ord y m d, dt_seconds = 0, tzinfo = None\<rparr>
                   else Inl ParserError)))"

definition numeric_date_libs :: date_libs where
  "numeric_date_libs =
     \<lparr>parser_parse = numeric_parse 2024, astimezone_sydney = Inr,
      today_sydney = ymd2ord 2024 4 3\<rparr>"

section \<open>Sanitizing text for the puzzle file\<close>

text \<open>
  \<open>html2text\<close>, \<open>emoji.demojize\<close> and \<open>unidecode\<close> are library functions: parameters.
  The module-level \<open>conversion_log\<close> is threaded through every function that appends to
  it; an entry is \<open>(original, sanitized, context)\<close>.
\<close>

record text_libs =
  html2text :: "pystr \<Rightarrow> pystr"
  demojize :: "pystr \<Rightarrow> pystr"
  unidecode :: "pystr \<Rightarrow> pystr"

type_synonym conversion_entry = "pystr \<times> pystr \<times> pystr"

definition sanitize_for_latin1 ::
  "text_libs \<Rightarrow> pystr option \<Rightarrow> pystr \<Rightarrow> conversion_entry list
     \<Rightarrow> pystr option \<times> conversion_entry list" where
  "sanitize_for_latin1 T text context_label log =
     (case text of
        None \<Rightarrow> (None, log)
      | Some t \<Rightarrow>
          if t = [] then (Some t, log)
          else
            (let sanitized = py_strip (unidecode T (demojize T (html2text T t)))
             in (Some sanitized,
                 if sanitized \<noteq> t then log @ [(t, sanitized, context_label)] else log)))"

definition converted :: "text_libs \<Rightarrow> pystr \<Rightarrow> pystr" where
  \<comment> \<open>the value line 76 computes, named for the statements below\<close>
  "converted T t = py_strip (unidecode T (demojize T (html2text T t)))"

definition plain_text_libs :: text_libs where
  \<comment> \<open>libraries that find nothing to convert, for concrete runs\<close>
  "plain_text_libs = \<lparr>html2text = (\<lambda>t. t), demojize = (\<lambda>t. t), unidecode = (\<lambda>t. t)\<rparr>"

text \<open>
  A closer instance: \<open>html2text\<close> drops the blanks around a text and ends its output
  with an empty line. On plain words separated by single blanks the library changes
  nothing else.
\<close>

definition wordwise_text_libs :: text_libs where
  "wordwise_text_libs =
     \<lparr>html2text = (\<lambda>t. py_strip t @ [10, 10]), demojize = (\<lambda>t. t), unidecode = (\<lambda>t. t)\<rparr>"

section \<open>The crossword record and the puzzle built from it\<close>

datatype crossword_type = CRYPTIC | MINI | QUICK

fun crossword_type_value :: "crossword_type \<Rightarrow> pystr" where
  "crossword_type_value CRYPTIC = ustr ''cryptic''"
| "crossword_type_value MINI = ustr ''mini''"
| "crossword_type_value QUICK = ustr ''quick''"

text \<open>
  The value stored in \<open>crossword_data\<close> is the JSON object of one crossword. Its
  required keys hold values of the types the site sends: strings, a list of rows of
  cell strings, and clue objects with an integer position. The two keys read with
  \<open>.get\<close> may be absent. An object that lacks a required key, or holds a value of
  another type under it, is not a value of this type (the source raises \<open>KeyError\<close>
  or \<open>TypeError\<close> on it).
\<close>

record clue_record =
  position :: int
  question :: pystr

record raw_crossword =
  cd_date :: pystr
  cd_type :: pystr
  cd_author :: pystr
  cd_grid :: "pystr list list"
  cd_across :: "clue_record list"
  cd_down :: "clue_record list"
  cd_specialInstructions :: "pystr option"
  cd_summary :: "pystr option"

record response =
  status_ok :: bool
  content :: pybytes

text \<open>
  The \<open>Crossword\<close> object. \<open>__slots__\<close> attributes exist only once assigned:
  \<open>crossword_data\<close> is unset (\<open>None\<close>) until \<open>extract_crossword\<close> assigns it, and it
  is then either Python's \<open>None\<close> (\<open>Some None\<close>) or a record. \<open>response\<close> is deleted
  by a successful extraction.
\<close>

record crossword =
  crossword_type :: crossword_type
  cw_date :: date
  response :: "response option"
  crossword_data :: "raw_crossword option option"

definition Crossword_init :: "crossword_type \<Rightarrow> date \<Rightarrow> response \<Rightarrow> crossword" where
  \<comment> \<open>\<open>__init__\<close>; the response is what the session's \<open>get\<close> returned\<close>
  "Crossword_init ct d r =
     \<lparr>crossword_type = ct, cw_date = d, response = Some r, crossword_data = None\<rparr>"

record puzzle =
  copyright :: pystr
  title :: pystr
  author :: pystr
  width :: nat
  height :: nat
  solution :: pystr
  fill :: pystr
  clues :: "pystr option list"
  puzzle_notes :: "pystr option"

text \<open>
  \<open>str.upper\<close> and \<open>str.capitalize\<close> on ASCII letters. The source applies the first
  to the three enum values and the second to a string that has just been asserted equal
  to one of them in upper case.
\<close>

definition py_upper :: "pystr \<Rightarrow> pystr" where
  "py_upper s = map (\<lambda>c. if 97 \<le> c \<and> c \<le> 122 then c - 32 else c) s"

definition py_lower :: "pystr \<Rightarrow> pystr" where
  "py_lower s = map (\<lambda>c. if 65 \<le> c \<and> c \<le> 90 then c + 32 else c) s"

definition py_capitalize :: "pystr \<Rightarrow> pystr" where
  "py_capitalize s = py_upper (take 1 s) @ py_lower (drop 1 s)"

fun py_join :: "pystr \<Rightarrow> pystr list \<Rightarrow> pystr" where
  "py_join sep [] = []"
| "py_join sep [x] = x"
| "py_join sep (x # y # ys) = x @ sep @ py_join sep (y # ys)"

definition two_digits :: "int \<Rightarrow> pystr" where
  "two_digits n = [48 + nat (n div 10 mod 10), 48 + nat (n mod 10)]"

definition four_digits :: "int \<Rightarrow> pystr" where
  "four_digits n = two_digits (n div 100) @ two_digits n"

definition isoformat :: "date \<Rightarrow> pystr" where
  "isoformat d =
     (case ord2ymd d of
        (y, m, dd) \<Rightarrow> four_digits y @ ustr ''-'' @ two_digits m @ ustr ''-'' @ two_digits dd)"

definition weekday_name :: "date \<Rightarrow> pystr" where
  "weekday_name d =
     map ustr [''Monday'', ''Tuesday'', ''Wednesday'', ''Thursday'', ''Friday'',
               ''Saturday'', ''Sunday''] ! nat ((d + 6) mod 7)"

definition month_name :: "int \<Rightarrow> pystr" where
  "month_name m =
     map ustr [''January'', ''February'', ''March'', ''April'', ''May'', ''June'', ''July'',
               ''August'', ''September'', ''October'', ''November'', ''December'']
       ! nat (m - 1)"

definition year_text :: "int \<Rightarrow> pystr" where
  \<comment> \<open>\<open>%Y\<close>: the year in decimal, not padded\<close>
  "year_text y = dropWhile (\<lambda>c. c = 48) (four_digits y)"

definition strftime_readable :: "date \<Rightarrow> pystr" where
  \<comment> \<open>\<open>strftime("%A, %B %d, %Y")\<close> in the C locale\<close>
  "strftime_readable d =
     (case ord2ymd d of
        (y, m, dd) \<Rightarrow>
          weekday_name d @ ustr '', '' @ month_name m @ ustr '' '' @ two_digits dd
            @ ustr '', '' @ year_text y)"

definition sorted_clues :: "raw_crossword \<Rightarrow> clue_record list" where
  \<comment> \<open>\<open>sorted(across + down, key=position)\<close>: Python's sort is stable, as \<open>sort_key\<close> is\<close>
  "sorted_clues raw = sort_key position (cd_across raw @ cd_down raw)"

fun sanitize_clues ::
  "text_libs \<Rightarrow> pystr \<Rightarrow> clue_record list \<Rightarrow> conversion_entry list
     \<Rightarrow> pystr option list \<times> conversion_entry list" where
  "sanitize_clues T context_label [] log = ([], log)"
| "sanitize_clues T context_label (clue # rest) log =
     (case sanitize_for_latin1 T (Some (question clue)) context_label log of
        (q, log1) \<Rightarrow>
          (case sanitize_clues T context_label rest log1 of
             (qs, log2) \<Rightarrow> (q # qs, log2)))"

definition joined_notes :: "raw_crossword \<Rightarrow> pystr option" where
  \<comment> \<open>\<open>"\n".join(filter(None, notes)) or None\<close>\<close>
  "joined_notes raw =
     (let notes = [case cd_specialInstructions raw of None \<Rightarrow> [] | Some t \<Rightarrow> t,
                   case cd_summary raw of None \<Rightarrow> [] | Some t \<Rightarrow> t];
          joined = py_join [10] (filter (\<lambda>t. t \<noteq> []) notes)
      in if joined = [] then None else Some joined)"

definition to_puzzle ::
  "text_libs \<Rightarrow> crossword \<Rightarrow> conversion_entry list
     \<Rightarrow> (error + puzzle) \<times> conversion_entry list" where
  "to_puzzle T self log =
     (case crossword_data self of
        None \<Rightarrow>
          (Inl (RuntimeError ''No crossword data available. Call extract_crossword() first.''),
           log)
      | Some None \<Rightarrow> (Inl TypeError, log)
      | Some (Some raw) \<Rightarrow>
          if cd_date raw \<noteq> isoformat (cw_date self) then (Inl AssertionError, log)
          else
            let readable_date = strftime_readable (cw_date self) in
            if py_upper (crossword_type_value (crossword_type self)) \<noteq> cd_type raw
            then (Inl AssertionError, log)
            else
              let the_title = py_capitalize (cd_type raw) @ ustr '', '' @ readable_date;
                  grid_data = cd_grid raw
              in (case grid_data of
                    [] \<Rightarrow> (Inl IndexError, log)
                  | first_row # _ \<Rightarrow>
                      let sol = concat (map concat grid_data) in
                      (case sanitize_clues T (ustr ''clue '' @ the_title)
                              (sorted_clues raw) log of
                         (cs, log1) \<Rightarrow>
                           (case sanitize_for_latin1 T (joined_notes raw)
                                   (ustr ''notes '' @ the_title) log1 of
                              (ns, log2) \<Rightarrow>
                                (Inr \<lparr>copyright = ustr ''The Sydney Morning Herald'',
                                      title = the_title,
                                      author = ustr ''Created by '' @ cd_author raw,
                                      width = length first_row,
                                      height = length grid_data,
                                      solution = sol,
                                      fill = map (\<lambda>c. if c = 46 then c else 45) sol,
                                      clues = cs,
                                      puzzle_notes = ns\<rparr>,
                                 log2)))))"

section \<open>Extracting the embedded state\<close>

text \<open>
  \<open>str.encode("utf-8")\<close>: one to four octets per code point; a surrogate cannot be
  encoded.
\<close>

definition utf8_char :: "nat \<Rightarrow> error + pybytes" where
  "utf8_char c =
     (if c < 128 then Inr [c]
      else if c < 2048 then Inr [192 + c div 64, 128 + c mod 64]
      else if 55296 \<le> c \<and> c \<le> 57343 then Inl UnicodeEncodeError
      else if c < 65536 then Inr [224 + c div 4096, 128 + c div 64 mod 64, 128 + c mod 64]
      else if c < 1114112
        then Inr [240 + c div 262144, 128 + c div 4096 mod 64, 128 + c div 64 mod 64,
                  128 + c mod 64]
      else Inl UnicodeEncodeError)"

definition utf8_encode :: "pystr \<Rightarrow> error + pybytes" where
  "utf8_encode s =
     (case sequence_sum (map utf8_char s) of Inl e \<Rightarrow> Inl e | Inr bs \<Rightarrow> Inr (concat bs))"

text \<open>
  \<open>bytes.decode("unicode_escape")\<close>, the codec of the interpreter in strict mode. An
  octet that does not start an escape is the code point of the same number (Latin-1).
  After a backslash and the octet \<open>e\<close>, \<open>escape_step\<close> gives the code points written and
  how many further octets the escape takes. The table of character names behind
  \<open>\N{...}\<close> is the parameter \<open>U\<close>.
\<close>

definition hex_digit :: "nat \<Rightarrow> nat option" where
  "hex_digit c =
     (if 48 \<le> c \<and> c \<le> 57 then Some (c - 48)
      else if 97 \<le> c \<and> c \<le> 102 then Some (c - 87)
      else if 65 \<le> c \<and> c \<le> 70 then Some (c - 55)
      else None)"

definition hex_value :: "pybytes \<Rightarrow> nat" where
  "hex_value ds = foldl (\<lambda>acc c. 16 * acc + (case hex_digit c of Some v \<Rightarrow> v | None \<Rightarrow> 0)) 0 ds"

definition is_octal :: "nat \<Rightarrow> bool" where
  "is_octal c \<longleftrightarrow> 48 \<le> c \<and> c \<le> 55"

definition octal_value :: "pybytes \<Rightarrow> nat" where
  "octal_value ds = foldl (\<lambda>acc c. 8 * acc + (c - 48)) 0 ds"

definition escape_step ::
  "(pybytes \<Rightarrow> nat option) \<Rightarrow> nat \<Rightarrow> pybytes \<Rightarrow> error + pystr \<times> nat" where
  "escape_step U e r =
     (if e = 10 then Inr ([], 0)
      else if e = 92 \<or> e = 39 \<or> e = 34 then Inr ([e], 0)
      else if e = 98 then Inr ([8], 0)
      else if e = 102 then Inr ([12], 0)
      else if e = 116 then Inr ([9], 0)
      else if e = 110 then Inr ([10], 0)
      else if e = 114 then Inr ([13], 0)
      else if e = 118 then Inr ([11], 0)
      else if e = 97 then Inr ([7], 0)
      else if is_octal e then
        (let more = takeWhile is_octal (take 2 r)
         in Inr ([octal_value (e # more)], length more))
      else if e = 120 \<or> e = 117 \<or> e = 85 then
        (let count = (if e = 120 then 2 else if e = 117 then 4 else 8);
             ds = take count r
         in if length ds < count \<or> (\<exists>d \<in> set ds. hex_digit d = None)
            then Inl (UnicodeDecodeError TruncatedEscape)
            else if hex_value ds > 1114111 then Inl (UnicodeDecodeError IllegalCharacter)
            else Inr ([hex_value ds], count))
      else if e = 78 then
        (case r of
           [] \<Rightarrow> Inl (UnicodeDecodeError MalformedName)
         | b # r' \<Rightarrow>
             if b \<noteq> 123 then Inl (UnicodeDecodeError MalformedName)
             else
               (let name = takeWhile (\<lambda>x. x \<noteq> 125) r'
                in if length name = length r' \<or> name = []
                   then Inl (UnicodeDecodeError MalformedName)
                   else
                     (case U name of
                        None \<Rightarrow> Inl (UnicodeDecodeError UnknownName)
                      | Some ch \<Rightarrow> Inr ([ch], length name + 2))))
      else Inr ([92, e], 0))"

fun unicode_escape_decode :: "(pybytes \<Rightarrow> nat option) \<Rightarrow> pybytes \<Rightarrow> error + pystr" where
  "unicode_escape_decode U [] = Inr []"
| "unicode_escape_decode U (c # s) =
     (if c \<noteq> 92 then
        (case unicode_escape_decode U s of Inl err \<Rightarrow> Inl err | Inr t \<Rightarrow> Inr (c # t))
      else
        (case s of
           [] \<Rightarrow> Inl (UnicodeDecodeError TrailingBackslash)
         | e # r \<Rightarrow>
             (case escape_step U e r of
                Inl err \<Rightarrow> Inl err
              | Inr (out, used) \<Rightarrow>
                  (case unicode_escape_decode U (drop used r) of
                     Inl err \<Rightarrow> Inl err
                   | Inr t \<Rightarrow> Inr (out @ t)))))"

text \<open>The unescaping step of \<open>extract_crossword\<close>: encode, then decode the escapes.\<close>

definition unescape :: "(pybytes \<Rightarrow> nat option) \<Rightarrow> pystr \<Rightarrow> error + pystr" where
  "unescape U json_string =
     (case utf8_encode json_string of
        Inl e \<Rightarrow> Inl e
      | Inr bs \<Rightarrow> unicode_escape_decode U bs)"

text \<open>
  \<open>re.search\<close> of the source's pattern, whose text is
  \<^verbatim>\<open>window\.INITIAL_STATE = JSON\.parse\("(.+)"\);\<close>. The group \<open>(.+)\<close> is greedy and does
  not cross a line feed: at the leftmost place where the prefix stands and a match exists,
  the group is the longest non-empty run, within the line, that is followed by the three
  characters that close the call.
\<close>

definition state_prefix :: pystr where
  "state_prefix = ustr ''window.INITIAL_STATE = JSON.parse('' @ [34]"

definition state_suffix :: pystr where
  "state_suffix = [34] @ ustr '');''"

definition greedy_group :: "pystr \<Rightarrow> pystr option" where
  "greedy_group line =
     (case filter (\<lambda>k. take 3 (drop k line) = state_suffix) (rev [1..<length line]) of
        [] \<Rightarrow> None
      | k # _ \<Rightarrow> Some (take k line))"

fun search_state :: "pystr \<Rightarrow> pystr option" where
  "search_state [] = None"
| "search_state (c # cs) =
     (if take (length state_prefix) (c # cs) = state_prefix then
        (case greedy_group (takeWhile (\<lambda>x. x \<noteq> 10) (drop (length state_prefix) (c # cs))) of
           Some g \<Rightarrow> Some g
         | None \<Rightarrow> search_state cs)
      else search_state cs)"

text \<open>
  The HTML parser and the JSON parser are library functions. \<open>script_strings\<close> gives, for
  the bytes of a page, the \<open>string\<close> attribute of each \<open>script\<close> element in document
  order (\<open>None\<close> where the element has none). The parsed document is read only through
  \<open>data.get("crosswords", {}).get("crossword")\<close>: it is represented by what stands under
  the first key, if present, and there by what stands under the second.
\<close>

record crosswords_object =
  crossword_entry :: "raw_crossword option"

record state_document =
  crosswords_entry :: "crosswords_object option"

record page_libs =
  script_strings :: "pybytes \<Rightarrow> pystr option list"
  json_loads :: "pystr \<Rightarrow> error + state_document"
  unicode_names :: "pybytes \<Rightarrow> nat option"

definition get_crossword :: "state_document \<Rightarrow> raw_crossword option" where
  "get_crossword data =
     (case crosswords_entry data of None \<Rightarrow> None | Some c \<Rightarrow> crossword_entry c)"

fun scan_scripts :: "page_libs \<Rightarrow> pystr option list \<Rightarrow> error + raw_crossword option" where
  "scan_scripts P [] = Inl (RuntimeError ''Crossword data not found in the page.'')"
| "scan_scripts P (script # scripts) =
     (case script of
        None \<Rightarrow> scan_scripts P scripts
      | Some text \<Rightarrow>
          if text = [] then scan_scripts P scripts
          else
            (case search_state text of
               None \<Rightarrow> scan_scripts P scripts
             | Some json_string \<Rightarrow>
                 (case unescape (unicode_names P) json_string of
                    Inl e \<Rightarrow> Inl e
                  | Inr unescaped \<Rightarrow>
                      (case json_loads P unescaped of
                         Inl e \<Rightarrow> Inl e
                       | Inr data \<Rightarrow> Inr (get_crossword data)))))"

definition extract_crossword :: "page_libs \<Rightarrow> crossword \<Rightarrow> error option \<times> crossword" where
  \<comment> \<open>the exception raised, if any, and the object after the call\<close>
  "extract_crossword P self =
     (case response self of
        None \<Rightarrow> (Some AttributeError, self)
      | Some r \<Rightarrow>
          if \<not> status_ok r then (Some HTTPError, self)
          else if content r = [] then (Some (ValueError ''Response content is empty.''), self)
          else
            (case scan_scripts P (script_strings P (content r)) of
               Inl e \<Rightarrow> (Some e, self)
             | Inr d \<Rightarrow> (None, self\<lparr>crossword_data := Some d, response := None\<rparr>)))"

section \<open>Writing the conversion log\<close>

text \<open>
  The state \<open>_write_conversion_log\<close> works on: the module's \<open>conversion_log\<close>, the text
  files by path, and the lines echoed. The clock, \<open>repr\<close> and whether the log file can
  be opened for appending come from outside.
\<close>

record world =
  conversion_log :: "conversion_entry list"
  files :: "pystr \<Rightarrow> pystr option"
  echoed :: "pystr list"

record log_env =
  now_isoformat :: pystr
  py_repr :: "pystr \<Rightarrow> pystr"
  can_append :: "pystr \<Rightarrow> bool"

definition path_join :: "pystr \<Rightarrow> pystr \<Rightarrow> pystr" where
  \<comment> \<open>\<open>output_path / name\<close> for a resolved path\<close>
  "path_join dir name = (if dir = ustr ''/'' then dir @ name else dir @ ustr ''/'' @ name)"

definition log_header :: "pystr \<Rightarrow> pystr" where
  "log_header timestamp = [10] @ ustr ''=== Conversion Log ['' @ timestamp @ ustr ''] ==='' @ [10]"

definition log_line :: "(pystr \<Rightarrow> pystr) \<Rightarrow> conversion_entry \<Rightarrow> pystr" where
  "log_line rep entry =
     (case entry of
        (original, sanitized, context_label) \<Rightarrow>
          ustr ''  ['' @ context_label @ ustr ''] '' @ rep original @ [32, 8594, 32]
            @ rep sanitized @ [10])"

definition conversion_log_file :: "pystr \<Rightarrow> pystr" where
  "conversion_log_file output_path = path_join output_path (ustr ''encoding-conversions.log'')"

definition write_conversion_log :: "log_env \<Rightarrow> pystr \<Rightarrow> world \<Rightarrow> error option \<times> world" where
  "write_conversion_log E output_path w =
     (if conversion_log w = [] then (None, w)
      else
        let log_file = conversion_log_file output_path in
        if \<not> can_append E log_file then (Some OSError, w)
        else
          let before = (case files w log_file of None \<Rightarrow> [] | Some t \<Rightarrow> t);
              written = log_header (now_isoformat E)
                          @ concat (map (log_line (py_repr E)) (conversion_log w))
          in (None,
              w\<lparr>files := (files w)(log_file \<mapsto> before @ written),
                conversion_log := [],
                echoed := echoed w @ [ustr ''Conversions logged to: '' @ log_file]\<rparr>))"

text \<open>An environment and a state for concrete runs: one pending entry, no file yet.\<close>

definition sample_log_env :: log_env where
  "sample_log_env =
     \<lparr>now_isoformat = ustr ''2024-04-03T10:00:00'',
      py_repr = (\<lambda>t. [39] @ t @ [39]),
      can_append = (\<lambda>_. True)\<rparr>"

definition sample_world :: world where
  "sample_world =
     \<lparr>conversion_log = [(ustr '' a'', ustr ''a'', ustr ''clue'')],
      files = (\<lambda>_. None),
      echoed = []\<rparr>"

section \<open>The escaping of the embedded state\<close>

text \<open>
  The page embeds the JSON document as the body of a JavaScript string literal. This is
  the escaping as the specification words it: a quote and a backslash are preceded by a
  backslash, a code point of the basic plane may be written as \<open>\uXXXX\<close> (which ones
  is the page's choice, the parameter \<open>as_unicode\<close>), every other character stands
  for itself.
\<close>

definition hex_char :: "nat \<Rightarrow> nat" where
  "hex_char d = (if d < 10 then 48 + d else 87 + d)"

definition hex4 :: "nat \<Rightarrow> pystr" where
  "hex4 c = map hex_char [c div 4096 mod 16, c div 256 mod 16, c div 16 mod 16, c mod 16]"

definition js_escape_char :: "(nat \<Rightarrow> bool) \<Rightarrow> nat \<Rightarrow> pystr" where
  "js_escape_char as_unicode c =
     (if c = 34 then [92, 34]
      else if c = 92 then [92, 92]
      else if as_unicode c \<and> c < 65536 then [92, 117] @ hex4 c
      else [c])"

definition js_escape :: "(nat \<Rightarrow> bool) \<Rightarrow> pystr \<Rightarrow> pystr" where
  "js_escape as_unicode doc = concat (map (js_escape_char as_unicode) doc)"

text \<open>The document \<^verbatim>\<open>{"a":"e"}\<close> with an acute accent on the letter e (U+00E9).\<close>

definition accented_document :: pystr where
  "accented_document = [123, 34, 97, 34, 58, 34, 233, 34, 125]"

section \<open>A sample page and record\<close>

text \<open>
  A record as the site sends it for the cryptic of 3 April 2024, with a 3 by 3 grid and
  an across and a down clue that start in the same cell, and the object holding it.
\<close>

definition sample_record :: raw_crossword where
  "sample_record =
     \<lparr>cd_date = ustr ''2024-04-03'', cd_type = ustr ''CRYPTIC'', cd_author = ustr ''DA'',
      cd_grid = [[ustr ''A'', ustr ''B'', ustr ''C''],
                 [ustr ''D'', ustr ''.'', ustr ''E''],
                 [ustr ''F'', ustr ''G'', ustr ''H'']],
      cd_across = [\<lparr>position = 1, question = ustr ''First across''\<rparr>,
                   \<lparr>position = 4, question = ustr ''Fourth across''\<rparr>],
      cd_down = [\<lparr>position = 1, question = ustr ''First down''\<rparr>,
                 \<lparr>position = 2, question = ustr ''Second down''\<rparr>],
      cd_specialInstructions = None, cd_summary = None\<rparr>"

definition holding :: "crossword_type \<Rightarrow> raw_crossword \<Rightarrow> crossword" where
  \<comment> \<open>an object for 3 April 2024 after an extraction that found the record\<close>
  "holding ct raw =
     \<lparr>crossword_type = ct, cw_date = ymd2ord 2024 4 3, response = None,
      crossword_data = Some (Some raw)\<rparr>"

definition puzzle_title :: "raw_crossword \<Rightarrow> date \<Rightarrow> pystr" where
  \<comment> \<open>the title \<open>to_puzzle\<close> gives the puzzle, named for the statements below\<close>
  "puzzle_title raw d = py_capitalize (cd_type raw) @ ustr '', '' @ strftime_readable d"

text \<open>The sample record with rows of unequal length, and with its type in mixed case.\<close>

definition ragged_record :: raw_crossword where
  "ragged_record = sample_record\<lparr>cd_grid := [[ustr ''A'', ustr ''B''], [ustr ''C'']]\<rparr>"

definition mixed_case_record :: raw_crossword where
  "mixed_case_record = sample_record\<lparr>cd_type := ustr ''Cryptic''\<rparr>"

text \<open>
  Two instances of the page libraries: one that finds no script in any page, and one that
  finds a script holding the assignment and whose JSON parser returns the document of the
  sample record.
\<close>

definition empty_page_libs :: page_libs where
  "empty_page_libs =
     \<lparr>script_strings = (\<lambda>_. []), json_loads = (\<lambda>_. Inl JSONDecodeError),
      unicode_names = (\<lambda>_. None)\<rparr>"

definition sample_script :: pystr where
  "sample_script =
     ustr ''window.INITIAL_STATE = JSON.parse('' @ [34] @ ustr ''{}'' @ [34] @ ustr '');''"

definition sample_page_libs :: page_libs where
  "sample_page_libs =
     \<lparr>script_strings = (\<lambda>_. [None, Some sample_script]),
      json_loads = (\<lambda>_. Inr \<lparr>crosswords_entry = Some \<lparr>crossword_entry = Some sample_record\<rparr>\<rparr>),
      unicode_names = (\<lambda>_. None)\<rparr>"

text \<open>
  The life of a \<open>Crossword\<close> object: it is created, and \<open>extract_crossword\<close> is called
  on it any number of times. The flag tells whether one of the calls returned without an
  exception.
\<close>

inductive lifecycle :: "page_libs \<Rightarrow> bool \<Rightarrow> crossword \<Rightarrow> bool" for P :: page_libs where
  fresh: "lifecycle P False (Crossword_init ct d r)"
| call: "lifecycle P extracted self \<Longrightarrow>
         lifecycle P (extracted \<or> fst (extract_crossword P self) = None)
           (snd (extract_crossword P self))"

section \<open>Properties of the date resolver\<close>

lemma sequence_sum_all_Inr: "sequence_sum (map (\<lambda>x. Inr (f x)) xs) = Inr (map f xs)"
  by (induction xs) simp_all

lemma map_offsets_upto: "map (\<lambda>k. A + int k) [0..<n] = [A..A + int n - 1]"
proof (induction n)
  case 0
  then show ?case by simp
next
  case (Suc n)
  have "[A..A + int (Suc n) - 1] = [A..A + int n - 1] @ [A + int n]"
    using upto_rec2[of A "A + int n"] by simp
  with Suc show ?case by simp
qed

lemma date_span_valid:
  assumes "valid_date A" "valid_date B" "A \<le> B"
  shows "date_span A B = Inr [A..B]"
proof -
  let ?n = "nat (days_between B A + 1)"
  have in_range: "valid_date (A + int k)" if "k < ?n" for k
    using that assms by (auto simp: valid_date_def days_between_def)
  have eq: "map (\<lambda>offset. date_add_days A (int offset)) [0..<?n]
        = map (\<lambda>offset. Inr (A + int offset)) [0..<?n]"
    by (rule map_cong) (simp_all add: date_add_days_def in_range)
  have "date_span A B = Inr (map (\<lambda>k. A + int k) [0..<?n])"
    unfolding date_span_def Let_def eq by (rule sequence_sum_all_Inr)
  moreover have "A + int ?n - 1 = B"
    using assms by (simp add: days_between_def)
  ultimately show ?thesis
    by (simp add: map_offsets_upto)
qed

lemma resolve_dates_range:
  assumes "colon \<in> set tok"
    and "py_strip (fst (split_first_colon tok)) = start_raw"
    and "py_strip (snd (split_first_colon tok)) = end_raw"
    and "start_raw \<noteq> []" and "end_raw \<noteq> []"
  shows "resolve_dates L (Some tok)
         = (case day_first_attempt L start_raw end_raw of
              Inr (start_date, end_date) \<Rightarrow> date_span start_date end_date
            | Inl AssertionError \<Rightarrow>
                (case month_first_attempt L start_raw end_raw of
                   Inl e \<Rightarrow> Inl e
                 | Inr (start_date, end_date) \<Rightarrow> date_span start_date end_date)
            | Inl e \<Rightarrow> Inl e)"
proof -
  have "tok \<noteq> []"
    using assms(1) by auto
  then show ?thesis
    using assms by (simp add: resolve_dates_def Let_def)
qed

text \<open>
  Claim C7. For a range token whose two ends, trimmed, are not empty and both parse with
  day-before-month precedence to dates \<open>A \<le> B\<close>, \<open>_resolve_dates\<close> returns exactly
  the consecutive calendar dates \<open>A, A + 1 day, ..., B\<close>, and their number is
  \<open>(B - A).days + 1\<close>. (\<open>valid_date\<close> says that \<open>A\<close> and \<open>B\<close> are dates of the
  \<open>datetime\<close> module, which every parsed date is.)
\<close>

theorem range_day_first_consecutive:
  assumes "colon \<in> set tok"
    and "py_strip (fst (split_first_colon tok)) = start_raw"
    and "py_strip (snd (split_first_colon tok)) = end_raw"
    and "start_raw \<noteq> []" and "end_raw \<noteq> []"
    and "parse_single_date L start_raw True = Inr A"
    and "parse_single_date L end_raw True = Inr B"
    and "valid_date A" and "valid_date B"
    and "A \<le> B"
  shows "resolve_dates L (Some tok) = Inr [A..B]
         \<and> length [A..B] = nat (days_between B A + 1)"
proof -
  have attempt: "day_first_attempt L start_raw end_raw = Inr (A, B)"
    using assms(6,7,10) by (simp add: day_first_attempt_def)
  have "resolve_dates L (Some tok) = date_span A B"
    by (simp add: resolve_dates_range[OF assms(1-5)] attempt)
  then show ?thesis
    using assms(8-10) by (simp add: date_span_valid days_between_def)
qed

theorem range_day_first_consecutive_witness:
  "resolve_dates numeric_date_libs (Some (ustr ''03/04/2024:05/04/2024''))
     = Inr [ymd2ord 2024 4 3..ymd2ord 2024 4 5]
   \<and> length [ymd2ord 2024 4 3..ymd2ord 2024 4 5]
       = nat (days_between (ymd2ord 2024 4 5) (ymd2ord 2024 4 3) + 1)"
proof (rule range_day_first_consecutive
    [where start_raw = "ustr ''03/04/2024''" and end_raw = "ustr ''05/04/2024''"])
  show "colon \<in> set (ustr ''03/04/2024:05/04/2024'')" by code_simp
  show "py_strip (fst (split_first_colon (ustr ''03/04/2024:05/04/2024''))) = ustr ''03/04/2024''"
    by code_simp
  show "py_strip (snd (split_first_colon (ustr ''03/04/2024:05/04/2024''))) = ustr ''05/04/2024''"
    by code_simp
  show "ustr ''03/04/2024'' \<noteq> []" by code_simp
  show "ustr ''05/04/2024'' \<noteq> []" by code_simp
  show "parse_single_date numeric_date_libs (ustr ''03/04/2024'') True = Inr (ymd2ord 2024 4 3)"
    by code_simp
  show "parse_single_date numeric_date_libs (ustr ''05/04/2024'') True = Inr (ymd2ord 2024 4 5)"
    by code_simp
  show "valid_date (ymd2ord 2024 4 3)" by code_simp
  show "valid_date (ymd2ord 2024 4 5)" by code_simp
  show "ymd2ord 2024 4 3 \<le> ymd2ord 2024 4 5" by code_simp
qed










text \<open>
  What the resolver does with an exception of the parser in the first attempt: it is not
  an \<open>AssertionError\<close>, no handler catches it, and it leaves \<open>_resolve_dates\<close>.
\<close>

lemma day_first_error_propagates:
  assumes "colon \<in> set tok"
    and "py_strip (fst (split_first_colon tok)) = start_raw"
    and "py_strip (snd (split_first_colon tok)) = end_raw"
    and "start_raw \<noteq> []" and "end_raw \<noteq> []"
    and "parse_single_date L start_raw True = Inl e" and "e \<noteq> AssertionError"
  shows "resolve_dates L (Some tok) = Inl e"
proof -
  have "day_first_attempt L start_raw end_raw = Inl e"
    using assms(6) by (simp add: day_first_attempt_def)
  then show ?thesis
    using assms(7) by (cases e) (simp_all add: resolve_dates_range[OF assms(1-5)])
qed

text \<open>
  Claim C10. A token without a colon is parsed by one call of the parser with
  day-before-month precedence (\<open>dayfirst=True\<close>); the result is the calendar date of what
  that call returns, alone in a list, or its error. The month-first reading is never asked
  for: the result is the same for any parser that reads the token day-first in the same
  way. In the instance, \<open>03/04/2024\<close> reads as 4 March month-first and as 3 April
  day-first, and the resolver returns 3 April 2024.
\<close>

theorem single_token_day_first:
  assumes "tok \<noteq> []" and "colon \<notin> set tok"
  shows "resolve_dates L (Some tok)
           = (case parser_parse L tok True of
                Inl e \<Rightarrow> Inl e
              | Inr parsed \<Rightarrow>
                  (case tzinfo parsed of
                     None \<Rightarrow> Inr [dt_date parsed]
                   | Some _ \<Rightarrow>
                       (case astimezone_sydney L parsed of
                          Inl e \<Rightarrow> Inl e
                        | Inr local \<Rightarrow> Inr [dt_date local])))
         \<and> (\<forall>L'. parser_parse L' tok True = parser_parse L tok True
                    \<and> astimezone_sydney L' = astimezone_sydney L
                  \<longrightarrow> resolve_dates L' (Some tok) = resolve_dates L (Some tok))"
proof -
  have single: "resolve_dates K (Some tok)
           = (case parser_parse K tok True of
                Inl e \<Rightarrow> Inl e
              | Inr parsed \<Rightarrow>
                  (case tzinfo parsed of
                     None \<Rightarrow> Inr [dt_date parsed]
                   | Some _ \<Rightarrow>
                       (case astimezone_sydney K parsed of
                          Inl e \<Rightarrow> Inl e
                        | Inr local \<Rightarrow> Inr [dt_date local])))" for K
    using assms
    by (simp add: resolve_dates_def parse_single_date_def split: sum.splits option.splits)
  have same: "resolve_dates L' (Some tok) = resolve_dates L (Some tok)"
    if "parser_parse L' tok True = parser_parse L tok True"
      and "astimezone_sydney L' = astimezone_sydney L" for L'
    by (simp only: single that)
  from single[of L] same show ?thesis
    by blast
qed

theorem single_token_day_first_witness:
  "parser_parse numeric_date_libs (ustr ''03/04/2024'') True
     = Inr \<lparr>dt_date = ymd2ord 2024 4 3, dt_seconds = 0, tzinfo = None\<rparr>
   \<and> parser_parse numeric_date_libs (ustr ''03/04/2024'') False
     = Inr \<lparr>dt_date = ymd2ord 2024 3 4, dt_seconds = 0, tzinfo = None\<rparr>
   \<and> resolve_dates numeric_date_libs (Some (ustr ''03/04/2024'')) = Inr [ymd2ord 2024 4 3]
   \<and> ord2ymd (ymd2ord 2024 4 3) = (2024, 4, 3)"
proof -
  have a: "ustr ''03/04/2024'' \<noteq> []" by code_simp
  have b: "colon \<notin> set (ustr ''03/04/2024'')" by code_simp
  have day_first: "parser_parse numeric_date_libs (ustr ''03/04/2024'') True
     = Inr \<lparr>dt_date = ymd2ord 2024 4 3, dt_seconds = 0, tzinfo = None\<rparr>"
    by code_simp
  have month_first: "parser_parse numeric_date_libs (ustr ''03/04/2024'') False
     = Inr \<lparr>dt_date = ymd2ord 2024 3 4, dt_seconds = 0, tzinfo = None\<rparr>"
    by code_simp
  have d: "ord2ymd (ymd2ord 2024 4 3) = (2024, 4, 3)" by code_simp
  from single_token_day_first[OF a b, of numeric_date_libs]
  have "resolve_dates numeric_date_libs (Some (ustr ''03/04/2024''))
        = (case parser_parse numeric_date_libs (ustr ''03/04/2024'') True of
                Inl e \<Rightarrow> Inl e
              | Inr parsed \<Rightarrow>
                  (case tzinfo parsed of
                     None \<Rightarrow> Inr [dt_date parsed]
                   | Some _ \<Rightarrow>
                       (case astimezone_sydney numeric_date_libs parsed of
                          Inl e \<Rightarrow> Inl e
                        | Inr local \<Rightarrow> Inr [dt_date local])))"
    by blast
  then have "resolve_dates numeric_date_libs (Some (ustr ''03/04/2024''))
             = Inr [ymd2ord 2024 4 3]"
    by (simp add: day_first)
  with day_first month_first d show ?thesis by blast
qed

section \<open>Properties of the puzzle builder\<close>

lemma sanitize_text_independent:
  "fst (sanitize_for_latin1 T text label log) = fst (sanitize_for_latin1 T text label [])"
  by (simp add: sanitize_for_latin1_def Let_def split: option.splits)

lemma sanitize_clues_texts:
  "fst (sanitize_clues T label cs log)
     = map (\<lambda>c. fst (sanitize_for_latin1 T (Some (question c)) label [])) cs"
proof (induction cs arbitrary: log)
  case Nil
  then show ?case by simp
next
  case (Cons c cs)
  obtain q log1 where step: "sanitize_for_latin1 T (Some (question c)) label log = (q, log1)"
    by (cases "sanitize_for_latin1 T (Some (question c)) label log")
  then have q: "q = fst (sanitize_for_latin1 T (Some (question c)) label [])"
    by (metis fst_conv sanitize_text_independent)
  obtain qs log2 where rest: "sanitize_clues T label cs log1 = (qs, log2)"
    by (cases "sanitize_clues T label cs log1")
  then have qs: "qs = map (\<lambda>c. fst (sanitize_for_latin1 T (Some (question c)) label [])) cs"
    using Cons.IH[of log1] by simp
  show ?case
    by (simp add: step rest q[symmetric] qs[symmetric])
qed

lemma to_puzzle_built:
  assumes "crossword_data self = Some (Some raw)"
    and "cd_date raw = isoformat (cw_date self)"
    and "cd_type raw = py_upper (crossword_type_value (crossword_type self))"
    and "cd_grid raw = first_row # rows"
  shows "\<exists>ns. fst (to_puzzle T self log) =
           Inr \<lparr>copyright = ustr ''The Sydney Morning Herald'',
                title = puzzle_title raw (cw_date self),
                author = ustr ''Created by '' @ cd_author raw,
                width = length first_row,
                height = length (cd_grid raw),
                solution = concat (map concat (cd_grid raw)),
                fill = map (\<lambda>c. if c = 46 then c else 45) (concat (map concat (cd_grid raw))),
                clues = fst (sanitize_clues T (ustr ''clue '' @ puzzle_title raw (cw_date self))
                               (sorted_clues raw) log),
                puzzle_notes = ns\<rparr>"
  using assms by (simp add: to_puzzle_def Let_def puzzle_title_def split: prod.splits)

lemma to_puzzle_outcome:
  assumes "crossword_data self = Some (Some raw)"
  shows "fst (to_puzzle T self log) =
           (if cd_date raw \<noteq> isoformat (cw_date self) then Inl AssertionError
            else if cd_type raw \<noteq> py_upper (crossword_type_value (crossword_type self))
            then Inl AssertionError
            else if cd_grid raw = [] then Inl IndexError
            else fst (to_puzzle T self log))
         \<and> (cd_date raw = isoformat (cw_date self)
              \<and> cd_type raw = py_upper (crossword_type_value (crossword_type self))
              \<and> cd_grid raw \<noteq> [] \<longrightarrow> (\<exists>p. fst (to_puzzle T self log) = Inr p))"
  using assms
  by (auto simp add: to_puzzle_def Let_def split: prod.splits list.splits)

lemma length_concat_single_cells:
  "\<forall>cell \<in> set row. length cell = 1 \<Longrightarrow> length (concat row) = length row"
  by (induction row) simp_all

lemma length_solution_rectangular:
  "\<forall>row \<in> set g. length row = w \<and> (\<forall>cell \<in> set row. length cell = 1)
     \<Longrightarrow> length (concat (map concat g)) = w * length g"
  by (induction g) (simp_all add: length_concat_single_cells)

text \<open>
  Claim C1, as amended. \<open>to_puzzle\<close> does not compare the lengths of the grid rows: for a
  record that is present it returns a puzzle exactly when the date and the type pass
  their assertions and the grid has at least one row. The puzzle then has the length of
  the first row as width, the number of rows as height and all cells, row after row, as
  solution; the solution has \<open>width * height\<close> characters whenever every row has the
  length of the first and every cell is one character.
\<close>

theorem grid_dimensions:
  assumes "crossword_data self = Some (Some raw)"
  shows "((\<exists>p. fst (to_puzzle T self log) = Inr p) \<longleftrightarrow>
            cd_date raw = isoformat (cw_date self)
            \<and> cd_type raw = py_upper (crossword_type_value (crossword_type self))
            \<and> cd_grid raw \<noteq> [])
         \<and> (\<forall>p. fst (to_puzzle T self log) = Inr p \<longrightarrow>
               width p = length (hd (cd_grid raw))
               \<and> height p = length (cd_grid raw)
               \<and> solution p = concat (map concat (cd_grid raw))
               \<and> ((\<forall>row \<in> set (cd_grid raw).
                      length row = width p \<and> (\<forall>cell \<in> set row. length cell = 1))
                    \<longrightarrow> length (solution p) = width p * height p))"
proof -
  let ?ok = "cd_date raw = isoformat (cw_date self)
             \<and> cd_type raw = py_upper (crossword_type_value (crossword_type self))
             \<and> cd_grid raw \<noteq> []"
  have outcome: "fst (to_puzzle T self log) =
           (if cd_date raw \<noteq> isoformat (cw_date self) then Inl AssertionError
            else if cd_type raw \<noteq> py_upper (crossword_type_value (crossword_type self))
            then Inl AssertionError
            else if cd_grid raw = [] then Inl IndexError
            else fst (to_puzzle T self log))"
    using to_puzzle_outcome[OF assms] by blast
  have succeeds: "\<exists>p. fst (to_puzzle T self log) = Inr p" if ?ok
    using to_puzzle_outcome[OF assms, of T log] that by blast
  have only_if: ?ok if "fst (to_puzzle T self log) = Inr p" for p
  proof (rule ccontr)
    assume "\<not> ?ok"
    then have "fst (to_puzzle T self log) = Inl AssertionError
               \<or> fst (to_puzzle T self log) = Inl IndexError"
      using outcome by (auto split: if_splits)
    with that show False by auto
  qed
  have shape: "width p = length (hd (cd_grid raw))
               \<and> height p = length (cd_grid raw)
               \<and> solution p = concat (map concat (cd_grid raw))
               \<and> ((\<forall>row \<in> set (cd_grid raw).
                      length row = width p \<and> (\<forall>cell \<in> set row. length cell = 1))
                    \<longrightarrow> length (solution p) = width p * height p)"
    if built: "fst (to_puzzle T self log) = Inr p" for p
  proof -
    from only_if[OF built] obtain first_row rows where grid: "cd_grid raw = first_row # rows"
      by (cases "cd_grid raw") auto
    from only_if[OF built] have d: "cd_date raw = isoformat (cw_date self)"
      and t: "cd_type raw = py_upper (crossword_type_value (crossword_type self))"
      by simp_all
    from to_puzzle_built[OF assms d t grid, of T log] built
    have w: "width p = length first_row" and h: "height p = length (cd_grid raw)"
      and s: "solution p = concat (map concat (cd_grid raw))"
      by auto
    show ?thesis
      using w h s grid length_solution_rectangular[of "cd_grid raw" "width p"] by simp
  qed
  show ?thesis
    using succeeds only_if shape by blast
qed

theorem grid_dimensions_witness:
  "cd_date sample_record = isoformat (cw_date (holding CRYPTIC sample_record))
   \<and> cd_type sample_record = py_upper (crossword_type_value CRYPTIC)
   \<and> map length (cd_grid sample_record) = [3, 3, 3]
   \<and> map_sum id (\<lambda>p. (width p, height p, length (solution p)))
        (fst (to_puzzle plain_text_libs (holding CRYPTIC sample_record) [])) = Inr (3, 3, 9)"
proof -
  have data: "crossword_data (holding CRYPTIC sample_record) = Some (Some sample_record)"
    by (simp add: holding_def)
  have d: "cd_date sample_record = isoformat (cw_date (holding CRYPTIC sample_record))"
    by code_simp
  have t: "cd_type sample_record
           = py_upper (crossword_type_value (crossword_type (holding CRYPTIC sample_record)))"
    by code_simp
  have t': "cd_type sample_record = py_upper (crossword_type_value CRYPTIC)"
    by code_simp
  have g: "cd_grid sample_record \<noteq> []"
    by code_simp
  have rows: "map length (cd_grid sample_record) = [3, 3, 3]"
    by code_simp
  have first: "length (hd (cd_grid sample_record)) = 3"
    by code_simp
  have cells: "\<forall>row \<in> set (cd_grid sample_record).
                 length row = 3 \<and> (\<forall>cell \<in> set row. length cell = 1)"
    by code_simp
  note inst = grid_dimensions[OF data, of plain_text_libs "[]"]
  from inst d t g obtain p
    where built: "fst (to_puzzle plain_text_libs (holding CRYPTIC sample_record) []) = Inr p"
    by blast
  have glen: "length (cd_grid sample_record) = 3"
    by code_simp
  from inst built
  have props: "width p = length (hd (cd_grid sample_record))
               \<and> height p = length (cd_grid sample_record)
               \<and> ((\<forall>row \<in> set (cd_grid sample_record).
                      length row = width p \<and> (\<forall>cell \<in> set row. length cell = 1))
                    \<longrightarrow> length (solution p) = width p * height p)"
    by blast
  then have w: "width p = 3" and h: "height p = 3"
    using first glen by simp_all
  have "\<forall>row \<in> set (cd_grid sample_record).
          length row = width p \<and> (\<forall>cell \<in> set row. length cell = 1)"
    using cells w by simp
  with props have "length (solution p) = width p * height p"
    by blast
  then have "length (solution p) = 9"
    using w h by simp
  with built w h d t' rows show ?thesis by simp
qed

text \<open>
  Claim C1 as stated fails: for a grid with a row of two cells and a row of one,
  \<open>to_puzzle\<close> returns a puzzle of width 2 and height 2 whose solution has 3 characters.
\<close>

theorem ragged_grid_counterexample:
  "map length (cd_grid ragged_record) = [2, 1]
   \<and> map_sum id (\<lambda>p. (width p, height p, length (solution p)))
        (fst (to_puzzle plain_text_libs (holding CRYPTIC ragged_record) [])) = Inr (2, 2, 3)"
  by code_simp

text \<open>
  Claim C5, as amended. For a record that is present, \<open>to_puzzle\<close> fails an assertion
  exactly when the record's date differs from the requested date in ISO form or the
  record's type, as it stands, differs from the requested type's name in upper case.
\<close>

theorem validation_failure_iff:
  assumes "crossword_data self = Some (Some raw)"
  shows "fst (to_puzzle T self log) = Inl AssertionError \<longleftrightarrow>
           cd_date raw \<noteq> isoformat (cw_date self)
           \<or> cd_type raw \<noteq> py_upper (crossword_type_value (crossword_type self))"
proof -
  have outcome: "fst (to_puzzle T self log) =
           (if cd_date raw \<noteq> isoformat (cw_date self) then Inl AssertionError
            else if cd_type raw \<noteq> py_upper (crossword_type_value (crossword_type self))
            then Inl AssertionError
            else if cd_grid raw = [] then Inl IndexError
            else fst (to_puzzle T self log))"
    and succeeds: "cd_date raw = isoformat (cw_date self)
              \<and> cd_type raw = py_upper (crossword_type_value (crossword_type self))
              \<and> cd_grid raw \<noteq> [] \<longrightarrow> (\<exists>p. fst (to_puzzle T self log) = Inr p)"
    using to_puzzle_outcome[OF assms, of T log] by blast+
  show ?thesis
  proof
    assume failed: "fst (to_puzzle T self log) = Inl AssertionError"
    show "cd_date raw \<noteq> isoformat (cw_date self)
          \<or> cd_type raw \<noteq> py_upper (crossword_type_value (crossword_type self))"
    proof (rule ccontr)
      assume "\<not> ?thesis"
      then have d: "cd_date raw = isoformat (cw_date self)"
        and t: "cd_type raw = py_upper (crossword_type_value (crossword_type self))"
        by simp_all
      show False
      proof (cases "cd_grid raw = []")
        case True
        with outcome d t have "fst (to_puzzle T self log) = Inl IndexError" by simp
        with failed show False by simp
      next
        case False
        with succeeds d t obtain p where "fst (to_puzzle T self log) = Inr p" by blast
        with failed show False by simp
      qed
    qed
  next
    assume "cd_date raw \<noteq> isoformat (cw_date self)
            \<or> cd_type raw \<noteq> py_upper (crossword_type_value (crossword_type self))"
    with outcome show "fst (to_puzzle T self log) = Inl AssertionError"
      by (auto split: if_splits)
  qed
qed

theorem validation_failure_iff_witness:
  "cd_type sample_record \<noteq> py_upper (crossword_type_value QUICK)
   \<and> fst (to_puzzle plain_text_libs (holding QUICK sample_record) []) = Inl AssertionError
   \<and> cd_date sample_record = isoformat (cw_date (holding CRYPTIC sample_record))
   \<and> cd_type sample_record = py_upper (crossword_type_value CRYPTIC)
   \<and> fst (to_puzzle plain_text_libs (holding CRYPTIC sample_record) []) \<noteq> Inl AssertionError"
proof -
  have q: "crossword_data (holding QUICK sample_record) = Some (Some sample_record)"
    and c: "crossword_data (holding CRYPTIC sample_record) = Some (Some sample_record)"
    by (simp_all add: holding_def)
  have tq: "cd_type sample_record
            \<noteq> py_upper (crossword_type_value (crossword_type (holding QUICK sample_record)))"
    by code_simp
  have tq': "cd_type sample_record \<noteq> py_upper (crossword_type_value QUICK)"
    by code_simp
  have d: "cd_date sample_record = isoformat (cw_date (holding CRYPTIC sample_record))"
    by code_simp
  have tc: "cd_type sample_record
            = py_upper (crossword_type_value (crossword_type (holding CRYPTIC sample_record)))"
    by code_simp
  have tc': "cd_type sample_record = py_upper (crossword_type_value CRYPTIC)"
    by code_simp
  have fails: "fst (to_puzzle plain_text_libs (holding QUICK sample_record) [])
               = Inl AssertionError"
    using validation_failure_iff[OF q, of plain_text_libs "[]"] tq by blast
  have passes: "fst (to_puzzle plain_text_libs (holding CRYPTIC sample_record) [])
                \<noteq> Inl AssertionError"
    using validation_failure_iff[OF c, of plain_text_libs "[]"] d tc by blast
  from tq' fails d tc' passes show ?thesis by blast
qed

text \<open>
  Claim C5 as stated fails: only the requested name is put in upper case. A record of
  type \<open>Cryptic\<close> equals the requested \<open>cryptic\<close> once both are in upper case, and its
  date matches, yet the assertion on the type fails.
\<close>

theorem mixed_case_type_counterexample:
  "py_upper (cd_type mixed_case_record) = py_upper (crossword_type_value CRYPTIC)
   \<and> cd_date mixed_case_record = isoformat (cw_date (holding CRYPTIC mixed_case_record))
   \<and> fst (to_puzzle plain_text_libs (holding CRYPTIC mixed_case_record) [])
       = Inl AssertionError"
  by code_simp

text \<open>
  Claim C6. The clues of a built puzzle are the sanitized questions of the across and
  down clue records together, in ascending order of position; the clues of one position
  are its across clues followed by its down clues.
\<close>

theorem clues_sorted_across_first:
  assumes "crossword_data self = Some (Some raw)"
    and "fst (to_puzzle T self log) = Inr p"
  shows "clues p = map (\<lambda>c. fst (sanitize_for_latin1 T (Some (question c))
                                   (ustr ''clue '' @ title p) []))
                     (sorted_clues raw)
         \<and> sorted (map position (sorted_clues raw))
         \<and> mset (sorted_clues raw) = mset (cd_across raw) + mset (cd_down raw)
         \<and> (\<forall>k. filter (\<lambda>c. position c = k) (sorted_clues raw)
                  = filter (\<lambda>c. position c = k) (cd_across raw)
                    @ filter (\<lambda>c. position c = k) (cd_down raw))"
proof -
  have "(\<exists>p. fst (to_puzzle T self log) = Inr p) \<longleftrightarrow>
            cd_date raw = isoformat (cw_date self)
            \<and> cd_type raw = py_upper (crossword_type_value (crossword_type self))
            \<and> cd_grid raw \<noteq> []"
  proof -
    have "fst (to_puzzle T self log) \<noteq> Inl AssertionError"
      "fst (to_puzzle T self log) \<noteq> Inl IndexError"
      using assms(2) by simp_all
    then show ?thesis
      using to_puzzle_outcome[OF assms(1), of T log] assms(2) by (metis (no_types, lifting))
  qed
  with assms(2) have d: "cd_date raw = isoformat (cw_date self)"
    and t: "cd_type raw = py_upper (crossword_type_value (crossword_type self))"
    and g: "cd_grid raw \<noteq> []"
    by blast+
  from g obtain first_row rows where grid: "cd_grid raw = first_row # rows"
    by (cases "cd_grid raw") auto
  from to_puzzle_built[OF assms(1) d t grid, of T log] assms(2)
  have ttl: "title p = puzzle_title raw (cw_date self)"
    and cl: "clues p = fst (sanitize_clues T (ustr ''clue '' @ puzzle_title raw (cw_date self))
                              (sorted_clues raw) log)"
    by auto
  have texts: "clues p = map (\<lambda>c. fst (sanitize_for_latin1 T (Some (question c))
                                   (ustr ''clue '' @ title p) []))
                     (sorted_clues raw)"
    by (simp add: cl ttl sanitize_clues_texts)
  have ordered: "sorted (map position (sorted_clues raw))"
    by (simp add: sorted_clues_def)
  have same: "mset (sorted_clues raw) = mset (cd_across raw) + mset (cd_down raw)"
    by (simp add: sorted_clues_def)
  have stable: "filter (\<lambda>c. position c = k) (sorted_clues raw)
                  = filter (\<lambda>c. position c = k) (cd_across raw)
                    @ filter (\<lambda>c. position c = k) (cd_down raw)" for k
    by (simp add: sorted_clues_def sort_key_stable)
  from texts ordered same stable show ?thesis by blast
qed



theorem clues_sorted_across_first_witness:
  "map_sum id clues (fst (to_puzzle plain_text_libs (holding CRYPTIC sample_record) []))
     = Inr [Some (ustr ''First across''), Some (ustr ''First down''),
            Some (ustr ''Second down''), Some (ustr ''Fourth across'')]
   \<and> map position (sorted_clues sample_record) = [1, 1, 2, 4]
   \<and> filter (\<lambda>c. position c = 1) (sorted_clues sample_record)
       = [\<lparr>position = 1, question = ustr ''First across''\<rparr>,
          \<lparr>position = 1, question = ustr ''First down''\<rparr>]"
proof -
  have data: "crossword_data (holding CRYPTIC sample_record) = Some (Some sample_record)"
    by (simp add: holding_def)
  have d: "cd_date sample_record = isoformat (cw_date (holding CRYPTIC sample_record))"
    by code_simp
  have t: "cd_type sample_record
           = py_upper (crossword_type_value (crossword_type (holding CRYPTIC sample_record)))"
    by code_simp
  have g: "cd_grid sample_record \<noteq> []"
    by code_simp
  from to_puzzle_outcome[OF data, of plain_text_libs "[]"] d t g
  obtain p where built: "fst (to_puzzle plain_text_libs (holding CRYPTIC sample_record) []) = Inr p"
    by blast
  note inst = clues_sorted_across_first[OF data built]
  have order: "sorted_clues sample_record
               = [\<lparr>position = 1, question = ustr ''First across''\<rparr>,
                  \<lparr>position = 1, question = ustr ''First down''\<rparr>,
                  \<lparr>position = 2, question = ustr ''Second down''\<rparr>,
                  \<lparr>position = 4, question = ustr ''Fourth across''\<rparr>]"
    by code_simp
  have texts: "fst (sanitize_for_latin1 plain_text_libs (Some (ustr s)) label []) = Some (ustr s)"
    if "py_strip (ustr s) = ustr s" for s label
    using that by (simp add: sanitize_for_latin1_def plain_text_libs_def Let_def)
  have s1: "py_strip (ustr ''First across'') = ustr ''First across''" by code_simp
  have s2: "py_strip (ustr ''First down'') = ustr ''First down''" by code_simp
  have s3: "py_strip (ustr ''Second down'') = ustr ''Second down''" by code_simp
  have s4: "py_strip (ustr ''Fourth across'') = ustr ''Fourth across''" by code_simp
  from inst have "clues p = map (\<lambda>c. fst (sanitize_for_latin1 plain_text_libs (Some (question c))
                                   (ustr ''clue '' @ title p) []))
                     (sorted_clues sample_record)"
    by blast
  then have c: "clues p = [Some (ustr ''First across''), Some (ustr ''First down''),
        Some (ustr ''Second down''), Some (ustr ''Fourth across'')]"
    by (simp add: order texts s1 s2 s3 s4)
  from inst have f: "filter (\<lambda>c. position c = 1) (sorted_clues sample_record)
       = filter (\<lambda>c. position c = 1) (cd_across sample_record)
         @ filter (\<lambda>c. position c = 1) (cd_down sample_record)"
    by blast
  have f': "filter (\<lambda>c. position c = 1) (cd_across sample_record)
         @ filter (\<lambda>c. position c = 1) (cd_down sample_record)
       = [\<lparr>position = 1, question = ustr ''First across''\<rparr>,
          \<lparr>position = 1, question = ustr ''First down''\<rparr>]"
    by code_simp
  have m: "map position (sorted_clues sample_record) = [1, 1, 2, 4]"
    by (simp add: order)
  show ?thesis
    using built c f f' m by simp
qed

lemma extract_failure_unchanged:
  "fst (extract_crossword P self) \<noteq> None \<Longrightarrow> snd (extract_crossword P self) = self"
  by (auto simp: extract_crossword_def split: option.splits sum.splits if_splits)

lemma extract_success_sets_data:
  "fst (extract_crossword P self) = None \<Longrightarrow>
     crossword_data (snd (extract_crossword P self)) \<noteq> None"
  by (auto simp: extract_crossword_def split: option.splits sum.splits if_splits)

lemma lifecycle_unset:
  "lifecycle P extracted self \<Longrightarrow> \<not> extracted \<Longrightarrow> crossword_data self = None"
proof (induction rule: lifecycle.induct)
  case (fresh ct d r)
  then show ?case by (simp add: Crossword_init_def)
next
  case (call extracted self)
  then have "fst (extract_crossword P self) \<noteq> None" and "\<not> extracted"
    by simp_all
  with call.IH show ?case
    by (simp add: extract_failure_unchanged)
qed

text \<open>
  Claim C9. On an object on which no call of \<open>extract_crossword\<close> has returned without
  an exception, \<open>to_puzzle\<close> raises the runtime error that no crossword data is
  available, builds nothing and leaves the conversion log alone; so \<open>to_puzzle\<close>
  returns a puzzle only after a successful extraction.
\<close>

theorem to_puzzle_needs_extraction:
  assumes "lifecycle P extracted self"
  shows "(\<not> extracted \<longrightarrow>
            to_puzzle T self log
              = (Inl (RuntimeError ''No crossword data available. Call extract_crossword() first.''),
                 log))
         \<and> (\<forall>p. fst (to_puzzle T self log) = Inr p \<longrightarrow> extracted)"
proof -
  have raises: "to_puzzle T self log
              = (Inl (RuntimeError ''No crossword data available. Call extract_crossword() first.''),
                 log)" if "\<not> extracted"
    using lifecycle_unset[OF assms that] by (simp add: to_puzzle_def)
  have "extracted" if "fst (to_puzzle T self log) = Inr p" for p
  proof (rule ccontr)
    assume "\<not> extracted"
    from raises[OF this] that show False by simp
  qed
  with raises show ?thesis
    by blast
qed

theorem to_puzzle_needs_extraction_witness:
  "fst (extract_crossword empty_page_libs
          (Crossword_init CRYPTIC (ymd2ord 2024 4 3) \<lparr>status_ok = True, content = []\<rparr>))
     = Some (ValueError ''Response content is empty.'')
   \<and> to_puzzle plain_text_libs
        (snd (extract_crossword empty_page_libs
           (Crossword_init CRYPTIC (ymd2ord 2024 4 3) \<lparr>status_ok = True, content = []\<rparr>))) []
     = (Inl (RuntimeError ''No crossword data available. Call extract_crossword() first.''), [])
   \<and> fst (extract_crossword sample_page_libs
          (Crossword_init CRYPTIC (ymd2ord 2024 4 3) \<lparr>status_ok = True, content = [60]\<rparr>))
     = None
   \<and> map_sum id width (fst (to_puzzle plain_text_libs
        (snd (extract_crossword sample_page_libs
           (Crossword_init CRYPTIC (ymd2ord 2024 4 3) \<lparr>status_ok = True, content = [60]\<rparr>))) []))
     = Inr 3"
proof -
  let ?empty = "Crossword_init CRYPTIC (ymd2ord 2024 4 3) \<lparr>status_ok = True, content = []\<rparr>"
  let ?page = "Crossword_init CRYPTIC (ymd2ord 2024 4 3) \<lparr>status_ok = True, content = [60]\<rparr>"
  have failed: "fst (extract_crossword empty_page_libs ?empty)
                = Some (ValueError ''Response content is empty.'')"
    by (simp add: extract_crossword_def Crossword_init_def)
  have "lifecycle empty_page_libs (False \<or> fst (extract_crossword empty_page_libs ?empty) = None)
          (snd (extract_crossword empty_page_libs ?empty))"
    by (rule lifecycle.call) (rule lifecycle.fresh)
  then have "lifecycle empty_page_libs False (snd (extract_crossword empty_page_libs ?empty))"
    using failed by simp
  from to_puzzle_needs_extraction[OF this, of plain_text_libs "[]"]
  have raised: "to_puzzle plain_text_libs (snd (extract_crossword empty_page_libs ?empty)) []
     = (Inl (RuntimeError ''No crossword data available. Call extract_crossword() first.''), [])"
    by simp
  have found: "fst (extract_crossword sample_page_libs ?page) = None"
    by code_simp
  have built: "map_sum id width (fst (to_puzzle plain_text_libs
                 (snd (extract_crossword sample_page_libs ?page)) [])) = Inr 3"
    by code_simp
  from failed raised found built show ?thesis by blast
qed

section \<open>Properties of the text sanitizer\<close>

lemma py_strip_prefix:
  "\<exists>rest. dropWhile py_isspace s = py_strip s @ rest"
proof -
  let ?u = "dropWhile py_isspace s"
  have "?u = rev (rev ?u)" by simp
  also have "rev ?u = takeWhile py_isspace (rev ?u) @ dropWhile py_isspace (rev ?u)"
    by simp
  finally have "?u = rev (dropWhile py_isspace (rev ?u)) @ rev (takeWhile py_isspace (rev ?u))"
    by (metis rev_append rev_rev_ident)
  then show ?thesis
    unfolding py_strip_def by blast
qed

lemma py_strip_no_leading_space:
  assumes "py_strip s = c # cs"
  shows "\<not> py_isspace c"
proof -
  from py_strip_prefix[of s] assms obtain rest
    where "dropWhile py_isspace s = c # cs @ rest"
    by auto
  then show ?thesis
    by (metis hd_dropWhile list.sel(1) list.distinct(1))
qed

lemma leading_space_is_logged:
  assumes "py_isspace c"
  shows "sanitize_for_latin1 T (Some (c # cs)) label log
         = (Some (py_strip (unidecode T (demojize T (html2text T (c # cs))))),
            log @ [(c # cs, py_strip (unidecode T (demojize T (html2text T (c # cs)))), label)])
         \<and> py_strip (unidecode T (demojize T (html2text T (c # cs)))) \<noteq> c # cs"
proof -
  have "py_strip (unidecode T (demojize T (html2text T (c # cs)))) \<noteq> c # cs"
    using py_strip_no_leading_space assms by metis
  then show ?thesis
    by (simp add: sanitize_for_latin1_def Let_def)
qed

lemma py_strip_idempotent: "py_strip (py_strip s) = py_strip s"
proof -
  let ?r = "py_strip s"
  have front: "dropWhile py_isspace ?r = ?r"
  proof (cases ?r)
    case Nil
    then show ?thesis by simp
  next
    case (Cons c cs)
    then have "\<not> py_isspace c"
      by (rule py_strip_no_leading_space)
    with Cons show ?thesis by simp
  qed
  have "rev ?r = dropWhile py_isspace (rev (dropWhile py_isspace s))"
    by (simp add: py_strip_def)
  then have rear: "dropWhile py_isspace (rev ?r) = rev ?r"
    by (simp add: dropWhile_idem)
  show ?thesis
    unfolding py_strip_def[of ?r] front rear by simp
qed

text \<open>
  Claim C3, as amended. \<open>_sanitize_for_latin1\<close> returns \<open>None\<close> and the empty string
  as they are, with no record. For any other text it returns the converted text (the
  three library conversions followed by \<open>strip()\<close>) and appends one record exactly
  when that differs from the input: a text comes back unchanged, with no record, exactly
  when the conversion gives it back. Being ASCII without markup or emoji does not
  ensure that: a text with whitespace at either end is always returned changed, with a
  record, whatever the libraries do.
\<close>

theorem sanitize_logs_exactly_changes:
  "sanitize_for_latin1 T None label log = (None, log)
   \<and> sanitize_for_latin1 T (Some []) label log = (Some [], log)
   \<and> (t \<noteq> [] \<longrightarrow>
        sanitize_for_latin1 T (Some t) label log
          = (Some (converted T t),
             if converted T t = t then log else log @ [(t, converted T t, label)]))
   \<and> (sanitize_for_latin1 T (Some t) label log = (Some t, log) \<longleftrightarrow>
        t = [] \<or> converted T t = t)
   \<and> (snd (sanitize_for_latin1 T (Some t) label log) = log \<longleftrightarrow>
        fst (sanitize_for_latin1 T (Some t) label log) = Some t)
   \<and> (t \<noteq> [] \<and> py_strip t \<noteq> t \<longrightarrow>
        fst (sanitize_for_latin1 T (Some t) label log) \<noteq> Some t
        \<and> snd (sanitize_for_latin1 T (Some t) label log) = log @ [(t, converted T t, label)])"
proof -
  have absent: "sanitize_for_latin1 T None label log = (None, log)"
    and empty: "sanitize_for_latin1 T (Some []) label log = (Some [], log)"
    by (simp_all add: sanitize_for_latin1_def)
  have result: "sanitize_for_latin1 T (Some t) label log
          = (Some (converted T t),
             if converted T t = t then log else log @ [(t, converted T t, label)])"
    if "t \<noteq> []"
    using that by (simp add: sanitize_for_latin1_def converted_def Let_def)
  have silent: "sanitize_for_latin1 T (Some t) label log = (Some t, log) \<longleftrightarrow>
        t = [] \<or> converted T t = t"
  proof (cases "t = []")
    case True
    with empty show ?thesis by simp
  next
    case False
    from result[OF False] show ?thesis
      using False by auto
  qed
  have both: "snd (sanitize_for_latin1 T (Some t) label log) = log \<longleftrightarrow>
        fst (sanitize_for_latin1 T (Some t) label log) = Some t"
  proof (cases "t = []")
    case True
    with empty show ?thesis by simp
  next
    case False
    from result[OF False] show ?thesis
      by auto
  qed
  have trimmed: "py_strip (converted T t) = converted T t"
    unfolding converted_def by (rule py_strip_idempotent)
  have blanks: "fst (sanitize_for_latin1 T (Some t) label log) \<noteq> Some t
        \<and> snd (sanitize_for_latin1 T (Some t) label log) = log @ [(t, converted T t, label)]"
    if "t \<noteq> []" and "py_strip t \<noteq> t"
  proof -
    have "converted T t \<noteq> t"
      using trimmed that(2) by auto
    with result[OF that(1)] show ?thesis by simp
  qed
  from absent empty result silent both blanks show ?thesis
    by blast
qed

theorem sanitize_logs_exactly_changes_witness:
  "converted wordwise_text_libs (ustr ''First across'') = ustr ''First across''
   \<and> sanitize_for_latin1 wordwise_text_libs (Some (ustr ''First across'')) (ustr ''clue'') []
       = (Some (ustr ''First across''), [])
   \<and> py_strip (ustr '' a'') \<noteq> ustr '' a''
   \<and> fst (sanitize_for_latin1 wordwise_text_libs (Some (ustr '' a'')) (ustr ''clue'') [])
       \<noteq> Some (ustr '' a'')
   \<and> snd (sanitize_for_latin1 wordwise_text_libs (Some (ustr '' a'')) (ustr ''clue'') [])
       = [(ustr '' a'', ustr ''a'', ustr ''clue'')]"
proof -
  have fixed: "converted wordwise_text_libs (ustr ''First across'') = ustr ''First across''"
    by code_simp
  have words: "ustr ''First across'' \<noteq> []"
    by code_simp
  have blank: "ustr '' a'' \<noteq> []" and untrimmed: "py_strip (ustr '' a'') \<noteq> ustr '' a''"
    by code_simp+
  have conv: "converted wordwise_text_libs (ustr '' a'') = ustr ''a''"
    by code_simp
  from sanitize_logs_exactly_changes
    [of wordwise_text_libs "ustr ''clue''" "[]" "ustr ''First across''"] words fixed
  have kept: "sanitize_for_latin1 wordwise_text_libs (Some (ustr ''First across''))
                (ustr ''clue'') [] = (Some (ustr ''First across''), [])"
    by simp
  from sanitize_logs_exactly_changes
    [of wordwise_text_libs "ustr ''clue''" "[]" "ustr '' a''"] blank untrimmed
  have "fst (sanitize_for_latin1 wordwise_text_libs (Some (ustr '' a'')) (ustr ''clue'') [])
          \<noteq> Some (ustr '' a'')
        \<and> snd (sanitize_for_latin1 wordwise_text_libs (Some (ustr '' a'')) (ustr ''clue'') [])
          = [] @ [(ustr '' a'', converted wordwise_text_libs (ustr '' a''), ustr ''clue'')]"
    by blast
  with conv have changed:
    "fst (sanitize_for_latin1 wordwise_text_libs (Some (ustr '' a'')) (ustr ''clue'') [])
          \<noteq> Some (ustr '' a'')"
    "snd (sanitize_for_latin1 wordwise_text_libs (Some (ustr '' a'')) (ustr ''clue'') [])
          = [(ustr '' a'', ustr ''a'', ustr ''clue'')]"
    by simp_all
  from fixed kept untrimmed changed show ?thesis by blast
qed

text \<open>
  Claim C3 as stated fails on surrounding whitespace: the ASCII text of a space and the
  letter a, without markup or emoji, comes back as the letter alone and a record is
  appended. By \<open>leading_space_is_logged\<close> this is so whatever the libraries do.
\<close>

theorem leading_space_counterexample:
  "list_all (\<lambda>c. c < 128) (ustr '' a'')
   \<and> sanitize_for_latin1 wordwise_text_libs (Some (ustr '' a'')) (ustr ''clue'') []
       = (Some (ustr ''a''), [(ustr '' a'', ustr ''a'', ustr ''clue'')])"
  by code_simp

section \<open>Properties of the conversion log\<close>

text \<open>
  Claim C8. With an empty \<open>conversion_log\<close>, \<open>_write_conversion_log\<close> writes nothing
  and leaves the whole state as it is. With a non-empty one, and the log file open for
  appending, it appends the timestamped header and one line per entry to that file and to
  no other, and empties \<open>conversion_log\<close>; a second call right after it changes
  nothing. Every line ends with a line feed.
\<close>

theorem flush_conversion_log:
  "(conversion_log w = [] \<longrightarrow> write_conversion_log E output_path w = (None, w))
   \<and> (conversion_log w \<noteq> [] \<and> can_append E (conversion_log_file output_path) \<longrightarrow>
        fst (write_conversion_log E output_path w) = None
        \<and> files (snd (write_conversion_log E output_path w)) (conversion_log_file output_path)
            = Some ((case files w (conversion_log_file output_path) of None \<Rightarrow> [] | Some t \<Rightarrow> t)
                    @ log_header (now_isoformat E)
                    @ concat (map (log_line (py_repr E)) (conversion_log w)))
        \<and> (\<forall>f. f \<noteq> conversion_log_file output_path \<longrightarrow>
              files (snd (write_conversion_log E output_path w)) f = files w f)
        \<and> conversion_log (snd (write_conversion_log E output_path w)) = []
        \<and> (\<forall>E'. write_conversion_log E' output_path (snd (write_conversion_log E output_path w))
                  = (None, snd (write_conversion_log E output_path w))))
   \<and> (\<forall>entry. last (log_line (py_repr E) entry) = 10)"
  by (auto simp add: write_conversion_log_def Let_def log_line_def split: prod.splits)

theorem flush_conversion_log_witness:
  "conversion_log sample_world \<noteq> []
   \<and> can_append sample_log_env (conversion_log_file (ustr ''/out''))
   \<and> fst (write_conversion_log sample_log_env (ustr ''/out'') sample_world) = None
   \<and> files (snd (write_conversion_log sample_log_env (ustr ''/out'') sample_world))
        (ustr ''/out/encoding-conversions.log'')
       = Some ([10] @ ustr ''=== Conversion Log [2024-04-03T10:00:00] ==='' @ [10]
               @ ustr ''  [clue] '' @ [39] @ ustr '' a'' @ [39, 32, 8594, 32, 39] @ ustr ''a''
               @ [39, 10])
   \<and> conversion_log (snd (write_conversion_log sample_log_env (ustr ''/out'') sample_world)) = []
   \<and> write_conversion_log sample_log_env (ustr ''/out'')
        (snd (write_conversion_log sample_log_env (ustr ''/out'') sample_world))
       = (None, snd (write_conversion_log sample_log_env (ustr ''/out'') sample_world))
   \<and> write_conversion_log sample_log_env (ustr ''/out'') (sample_world\<lparr>conversion_log := []\<rparr>)
       = (None, sample_world\<lparr>conversion_log := []\<rparr>)"
proof -
  have pending: "conversion_log sample_world \<noteq> []"
    by code_simp
  have writable: "can_append sample_log_env (conversion_log_file (ustr ''/out''))"
    by (simp add: sample_log_env_def)
  have path: "conversion_log_file (ustr ''/out'') = ustr ''/out/encoding-conversions.log''"
    by code_simp
  have written: "(case files sample_world (ustr ''/out/encoding-conversions.log'') of
                 None \<Rightarrow> [] | Some t \<Rightarrow> t)
              @ log_header (now_isoformat sample_log_env)
              @ concat (map (log_line (py_repr sample_log_env)) (conversion_log sample_world))
              = [10] @ ustr ''=== Conversion Log [2024-04-03T10:00:00] ==='' @ [10]
               @ ustr ''  [clue] '' @ [39] @ ustr '' a'' @ [39, 32, 8594, 32, 39] @ ustr ''a''
               @ [39, 10]"
    by code_simp
  have cleared: "conversion_log (sample_world\<lparr>conversion_log := []\<rparr>) = []"
    by simp
  note first = flush_conversion_log[of sample_world sample_log_env "ustr ''/out''"]
  note again = flush_conversion_log[of "sample_world\<lparr>conversion_log := []\<rparr>" sample_log_env
      "ustr ''/out''"]
  from first pending writable
  have a: "fst (write_conversion_log sample_log_env (ustr ''/out'') sample_world) = None"
    and b: "files (snd (write_conversion_log sample_log_env (ustr ''/out'') sample_world))
              (conversion_log_file (ustr ''/out''))
            = Some ((case files sample_world (conversion_log_file (ustr ''/out'')) of
                       None \<Rightarrow> [] | Some t \<Rightarrow> t)
                    @ log_header (now_isoformat sample_log_env)
                    @ concat (map (log_line (py_repr sample_log_env))
                                (conversion_log sample_world)))"
    and c: "conversion_log (snd (write_conversion_log sample_log_env (ustr ''/out'') sample_world))
            = []"
    and d: "write_conversion_log sample_log_env (ustr ''/out'')
              (snd (write_conversion_log sample_log_env (ustr ''/out'') sample_world))
            = (None, snd (write_conversion_log sample_log_env (ustr ''/out'') sample_world))"
    by blast+
  from again cleared
  have e: "write_conversion_log sample_log_env (ustr ''/out'') (sample_world\<lparr>conversion_log := []\<rparr>)
           = (None, sample_world\<lparr>conversion_log := []\<rparr>)"
    by blast
  from b[unfolded path] have b': "files (snd (write_conversion_log sample_log_env (ustr ''/out'') sample_world))
        (ustr ''/out/encoding-conversions.log'')
       = Some ([10] @ ustr ''=== Conversion Log [2024-04-03T10:00:00] ==='' @ [10]
               @ ustr ''  [clue] '' @ [39] @ ustr '' a'' @ [39, 32, 8594, 32, 39] @ ustr ''a''
               @ [39, 10])"
    by (simp only: written)
  from pending writable a b' c d e show ?thesis by blast
qed

section \<open>Properties of the unescaping step\<close>

text \<open>
  Claim C2 says that the unescaping step recovers every document from its escaped text,
  also where characters outside ASCII are left as they are. It does not: the step encodes
  the text as UTF-8 and the \<open>unicode_escape\<close> codec then reads every octet as one
  Latin-1 character. For the accented document, escaped with no \<open>\uXXXX\<close> escape, the
  step returns a text with two characters (U+00C3, U+00A9) in place of the accented
  letter.
\<close>

theorem unescape_mangles_literal_non_ascii:
  "js_escape (\<lambda>_. False) accented_document
     = [123, 92, 34, 97, 92, 34, 58, 92, 34, 233, 92, 34, 125]
   \<and> unescape U (js_escape (\<lambda>_. False) accented_document)
     = Inr [123, 34, 97, 34, 58, 34, 195, 169, 34, 125]
   \<and> unescape U (js_escape (\<lambda>_. False) accented_document) \<noteq> Inr accented_document"
  by code_simp

theorem unescape_mangles_literal_non_ascii_witness:
  "unescape (\<lambda>_. None) (js_escape (\<lambda>_. False) accented_document)
     = Inr [123, 34, 97, 34, 58, 34, 195, 169, 34, 125]"
  using unescape_mangles_literal_non_ascii[of "\<lambda>_. None"] by blast

lemma hex_digit_hex_char: "d < 16 \<Longrightarrow> hex_digit (hex_char d) = Some d"
  by (auto simp: hex_digit_def hex_char_def)

lemma hex_char_ascii: "d < 16 \<Longrightarrow> hex_char d < 128"
  by (simp add: hex_char_def)

lemma hex4_length: "length (hex4 c) = 4"
  by (simp add: hex4_def)

lemma hex4_digits: "\<forall>d \<in> set (hex4 c). hex_digit d \<noteq> None \<and> d < 128"
  by (simp add: hex4_def hex_digit_hex_char hex_char_ascii)

lemma hex_value_hex4:
  assumes "c < 65536"
  shows "hex_value (hex4 c) = c"
proof -
  define q1 where "q1 = c div 16"
  define q2 where "q2 = q1 div 16"
  define q3 where "q3 = q2 div 16"
  have d2: "c div 256 = q2"
    unfolding q2_def q1_def by (simp add: div_mult2_eq[symmetric])
  have d3: "c div 4096 = q3"
    unfolding q3_def q2_def q1_def by (simp add: div_mult2_eq[symmetric])
  have small: "q3 < 16"
    using assms unfolding d3[symmetric] by simp
  have e1: "c = 16 * q1 + c mod 16"
    unfolding q1_def by simp
  have e2: "q1 = 16 * q2 + q1 mod 16"
    unfolding q2_def by simp
  have e3: "q2 = 16 * q3 + q2 mod 16"
    unfolding q3_def by simp
  have "hex_value (hex4 c)
        = 16 * (16 * (16 * (c div 4096 mod 16) + c div 256 mod 16) + c div 16 mod 16) + c mod 16"
    by (simp add: hex_value_def hex4_def hex_digit_hex_char)
  also have "\<dots> = 16 * (16 * (16 * q3 + q2 mod 16) + q1 mod 16) + c mod 16"
    using small by (simp add: d2 d3 q1_def[symmetric])
  also have "\<dots> = c"
    using e1 e2 e3 by simp
  finally show ?thesis .
qed

lemma sequence_sum_utf8_ascii:
  "\<forall>c \<in> set s. c < 128 \<Longrightarrow> sequence_sum (map utf8_char s) = Inr (map (\<lambda>c. [c]) s)"
  by (induction s) (simp_all add: utf8_char_def)

lemma utf8_encode_ascii:
  assumes "\<forall>c \<in> set s. c < 128"
  shows "utf8_encode s = Inr s"
proof -
  have "concat (map (\<lambda>c. [c]) s) = s"
    by (induction s) simp_all
  then show ?thesis
    by (simp add: utf8_encode_def sequence_sum_utf8_ascii[OF assms])
qed

lemma js_escape_char_ascii:
  assumes "c < 128 \<or> (as_unicode c \<and> c < 65536)"
  shows "\<forall>b \<in> set (js_escape_char as_unicode c). b < 128"
  using assms hex4_digits[of c] by (auto simp: js_escape_char_def)

lemma decode_js_escape_char:
  assumes "c < 128 \<or> (as_unicode c \<and> c < 65536)"
  shows "unicode_escape_decode U (js_escape_char as_unicode c @ bs)
         = (case unicode_escape_decode U bs of Inl err \<Rightarrow> Inl err | Inr t \<Rightarrow> Inr (c # t))"
proof -
  consider (quote) "c = 34" | (backslash) "c = 92"
    | (coded) "c \<noteq> 34" "c \<noteq> 92" "as_unicode c" "c < 65536"
    | (literal) "c \<noteq> 34" "c \<noteq> 92" "\<not> (as_unicode c \<and> c < 65536)" "c < 128"
    using assms by blast
  then show ?thesis
  proof cases
    case quote
    then show ?thesis
      by (simp add: js_escape_char_def escape_step_def split: sum.splits)
  next
    case backslash
    then show ?thesis
      by (simp add: js_escape_char_def escape_step_def split: sum.splits)
  next
    case coded
    have step: "escape_step U 117 (hex4 c @ bs) = Inr ([c], 4)"
      using hex4_digits[of c] coded(4)
      by (simp add: escape_step_def is_octal_def Let_def hex4_length hex_value_hex4)
    have "js_escape_char as_unicode c @ bs = 92 # 117 # (hex4 c @ bs)"
      using coded by (simp add: js_escape_char_def)
    then show ?thesis
      by (simp add: step hex4_length split: sum.splits)
  next
    case literal
    then show ?thesis
      by (simp add: js_escape_char_def split: sum.splits)
  qed
qed

lemma decode_js_escape:
  assumes "\<forall>c \<in> set doc. c < 128 \<or> (as_unicode c \<and> c < 65536)"
  shows "unicode_escape_decode U (js_escape as_unicode doc) = Inr doc"
  using assms
proof (induction doc)
  case Nil
  then show ?case by (simp add: js_escape_def)
next
  case (Cons c doc)
  then have "unicode_escape_decode U (js_escape as_unicode doc) = Inr doc"
    and c: "c < 128 \<or> (as_unicode c \<and> c < 65536)"
    by simp_all
  then show ?case
    using decode_js_escape_char[of c as_unicode U "js_escape as_unicode doc"]
    by (simp add: js_escape_def)
qed

text \<open>
  Where every character the page leaves unescaped is ASCII, and the others are written as
  \<open>\uXXXX\<close>, the unescaping step does recover the document.
\<close>

theorem unescape_reverses_ascii_escaping:
  assumes "\<forall>c \<in> set doc. c < 128 \<or> (as_unicode c \<and> c < 65536)"
  shows "unescape U (js_escape as_unicode doc) = Inr doc"
proof -
  have "\<forall>b \<in> set (js_escape as_unicode doc). b < 128"
  proof
    fix b
    assume "b \<in> set (js_escape as_unicode doc)"
    then obtain c where "c \<in> set doc" and "b \<in> set (js_escape_char as_unicode c)"
      by (auto simp: js_escape_def)
    with assms js_escape_char_ascii show "b < 128"
      by blast
  qed
  then have "utf8_encode (js_escape as_unicode doc) = Inr (js_escape as_unicode doc)"
    by (rule utf8_encode_ascii)
  then show ?thesis
    by (simp add: unescape_def decode_js_escape[OF assms])
qed

theorem unescape_reverses_ascii_escaping_witness:
  "js_escape (\<lambda>c. c \<ge> 128) accented_document
     = [123, 92, 34, 97, 92, 34, 58, 92, 34, 92, 117, 48, 48, 101, 57, 92, 34, 125]
   \<and> unescape (\<lambda>_. None) (js_escape (\<lambda>c. c \<ge> 128) accented_document) = Inr accented_document"
proof -
  have "\<forall>c \<in> set accented_document. c < 128 \<or> (128 \<le> c \<and> c < 65536)"
    by code_simp
  from unescape_reverses_ascii_escaping[of accented_document "\<lambda>c. c \<ge> 128" "\<lambda>_. None", OF this]
  have "unescape (\<lambda>_. None) (js_escape (\<lambda>c. c \<ge> 128) accented_document) = Inr accented_document" .
  moreover have "js_escape (\<lambda>c. c \<ge> 128) accented_document
     = [123, 92, 34, 97, 92, 34, 58, 92, 34, 92, 117, 48, 48, 101, 57, 92, 34, 125]"
    by code_simp
  ultimately show ?thesis by blast
qed

end
